theory Spec2Isabelle
  imports Complex_Main "HOL-Library.Word" "HOL-Library.AList"
begin

section \<open>Quiz lifecycle of the QuizAI server (src/index.js)\<close>

text \<open>
  The development embeds the route handlers of the quiz lifecycle: quiz generation
  (\<^verbatim>\<open>POST /generate_quiz/:id\<close>), the quiz page (\<^verbatim>\<open>GET /take_quiz/:quizId\<close>), question
  delivery (\<^verbatim>\<open>GET /api/quiz/:quizId\<close>), submission and scoring
  (\<^verbatim>\<open>POST /api/quiz/submit/:quizId\<close>) and explanation lookup
  (\<^verbatim>\<open>POST /api/explanation/get\<close>).

  A handler is a function of the database contents, the session and the request, which
  returns the HTTP response (and the new database contents when the handler writes).
  The collections are lists of documents in insertion order; \<^verbatim>\<open>findOne\<close> returns the
  first match. Reads and updates of the database succeed; \<^verbatim>\<open>create\<close> may throw.

  Values are taken at the types the handlers use them at: document ids are numbers, texts
  are JavaScript strings, an object of texts is the list of its own properties, and a missing
  (\<^verbatim>\<open>undefined\<close>) property is \<open>None\<close>. Counts are natural numbers, and the number
  computed from them (the percentage) is a double. A question of the generative model's answer may
  lack any of its fields and any of its explanations; a submitted answer carries an
  integer index, inside or outside the quiz.
\<close>

subsection \<open>JavaScript strings\<close>

text \<open>
  A JavaScript string is a sequence of UTF-16 code units; \<^verbatim>\<open>.length\<close> counts code units.
\<close>

type_synonym jsstring = "16 word list"

definition ascii :: "string \<Rightarrow> jsstring" where
  "ascii s = map of_char s"

text \<open>The white space and line terminators that \<^verbatim>\<open>String.prototype.trim\<close> removes.\<close>

definition is_whitespace :: "16 word \<Rightarrow> bool" where
  "is_whitespace c =
     (c = 0x9 \<or> c = 0xA \<or> c = 0xB \<or> c = 0xC \<or> c = 0xD \<or> c = 0x20 \<or> c = 0xA0
      \<or> c = 0x1680 \<or> (0x2000 \<le> c \<and> c \<le> 0x200A) \<or> c = 0x2028 \<or> c = 0x2029
      \<or> c = 0x202F \<or> c = 0x205F \<or> c = 0x3000 \<or> c = 0xFEFF)"

definition trim :: "jsstring \<Rightarrow> jsstring" where
  "trim s = rev (dropWhile is_whitespace (rev (dropWhile is_whitespace s)))"

text \<open>\<^verbatim>\<open>s.includes(sub)\<close>: \<open>sub\<close> occurs in \<open>s\<close> at some position.\<close>

definition str_includes :: "jsstring \<Rightarrow> jsstring \<Rightarrow> bool" where
  "str_includes s sub = list_ex (\<lambda>i. take (length sub) (drop i s) = sub) [0..<Suc (length s)]"

text \<open>Truthiness of a string-valued property: \<^verbatim>\<open>undefined\<close> and \<^verbatim>\<open>''\<close> are falsy.\<close>

definition truthy :: "jsstring option \<Rightarrow> bool" where
  "truthy v = (case v of None \<Rightarrow> False | Some s \<Rightarrow> s \<noteq> [])"

text \<open>Truthiness of an object-valued property: only \<^verbatim>\<open>undefined\<close> is falsy.\<close>

definition present :: "'a option \<Rightarrow> bool" where
  "present v = (case v of None \<Rightarrow> False | Some _ \<Rightarrow> True)"

text \<open>\<^verbatim>\<open>!v || v.trim() === ''\<close>\<close>

definition blank :: "jsstring option \<Rightarrow> bool" where
  "blank v = (case v of None \<Rightarrow> True | Some s \<Rightarrow> s = [] \<or> trim s = [])"

text \<open>\<^verbatim>\<open>v && v.trim() !== ''\<close>\<close>

definition non_blank :: "jsstring option \<Rightarrow> bool" where
  "non_blank v = (case v of None \<Rightarrow> False | Some s \<Rightarrow> s \<noteq> [] \<and> trim s \<noteq> [])"

text \<open>A value interpolated into a template literal.\<close>

definition to_str :: "jsstring option \<Rightarrow> jsstring" where
  "to_str v = (case v of None \<Rightarrow> ascii ''undefined'' | Some s \<Rightarrow> s)"

text \<open>A number interpolated into a template literal (decimal digits).\<close>

fun num_str :: "nat \<Rightarrow> jsstring" where
  "num_str n =
     (if n < 10 then [of_nat (48 + n)]
      else num_str (n div 10) @ [of_nat (48 + n mod 10)])"

text \<open>
  An object whose own property values are strings: its own properties in insertion order.
  \<^verbatim>\<open>obj[key] = v\<close> overwrites the own property in place or appends it. A key expression
  that is \<^verbatim>\<open>undefined\<close> is the key \<^verbatim>\<open>'undefined'\<close>.
\<close>

type_synonym js_object = "(jsstring \<times> jsstring) list"

definition set_prop :: "js_object \<Rightarrow> jsstring \<Rightarrow> jsstring \<Rightarrow> js_object" where
  "set_prop obj key v = AList.update key v obj"

text \<open>
  A property read \<^verbatim>\<open>obj[key]\<close> on such an object finds the object's own property, and
  otherwise what every plain object inherits from \<^verbatim>\<open>Object.prototype\<close>: one of its
  methods (listed with the name of the function), or the prototype itself for
  \<^verbatim>\<open>__proto__\<close>. Only an own property is a string.
\<close>

datatype prop_value = Undefined | Str jsstring | Method jsstring | Prototype

definition object_prototype :: "(jsstring \<times> jsstring) list" where
  "object_prototype =
     [(ascii ''constructor'', ascii ''Object''),
      (ascii ''__defineGetter__'', ascii ''__defineGetter__''),
      (ascii ''__defineSetter__'', ascii ''__defineSetter__''),
      (ascii ''hasOwnProperty'', ascii ''hasOwnProperty''),
      (ascii ''__lookupGetter__'', ascii ''__lookupGetter__''),
      (ascii ''__lookupSetter__'', ascii ''__lookupSetter__''),
      (ascii ''isPrototypeOf'', ascii ''isPrototypeOf''),
      (ascii ''propertyIsEnumerable'', ascii ''propertyIsEnumerable''),
      (ascii ''toString'', ascii ''toString''),
      (ascii ''valueOf'', ascii ''valueOf''),
      (ascii ''toLocaleString'', ascii ''toLocaleString'')]"

definition read_prop :: "js_object \<Rightarrow> jsstring \<Rightarrow> prop_value" where
  "read_prop obj key =
     (case map_of obj key of
        Some s \<Rightarrow> Str s
      | None \<Rightarrow>
          if key = ascii ''__proto__'' then Prototype
          else (case map_of object_prototype key of
                  Some name \<Rightarrow> Method name
                | None \<Rightarrow> Undefined))"

text \<open>A property value interpolated into a template literal.\<close>

definition show_prop :: "prop_value \<Rightarrow> jsstring" where
  "show_prop v =
     (case v of
        Undefined \<Rightarrow> ascii ''undefined''
      | Str s \<Rightarrow> s
      | Method name \<Rightarrow> ascii ''function '' @ name @ ascii ''() { [native code] }''
      | Prototype \<Rightarrow> ascii ''[object Object]'')"

text \<open>\<^verbatim>\<open>xs[i]\<close> on an array: \<^verbatim>\<open>undefined\<close> outside \<open>0 .. length - 1\<close>.\<close>

definition at_index :: "'a list \<Rightarrow> int \<Rightarrow> 'a option" where
  "at_index xs i = (if 0 \<le> i \<and> i < int (length xs) then Some (xs ! nat i) else None)"

subsection \<open>JavaScript numbers\<close>

text \<open>
  A JavaScript number is an IEEE 754 double: a finite value, an infinity or NaN. The
  handlers compute with counts and their quotients only, so the model has the
  non-negative values and no signed zero. The finite values are reals of the form
  \<open>m * 2 ^ e\<close> with \<open>m < 2 ^ 53\<close>; every arithmetic operation returns the exact result
  rounded to the nearest such value, ties to the even \<open>m\<close>.
\<close>

datatype double = Finite real | Infinity | NaN

text \<open>The number of binary digits of a natural number.\<close>

fun bits :: "nat \<Rightarrow> nat" where
  "bits n = (if n = 0 then 0 else Suc (bits (n div 2)))"

declare bits.simps [simp del]

definition pow2 :: "int \<Rightarrow> real" where
  "pow2 e = (if 0 \<le> e then 2 ^ nat e else 1 / 2 ^ nat (- e))"

text \<open>The binary exponent of a positive real \<open>x\<close>: the \<open>e\<close> with \<open>2 ^ e \<le> x < 2 ^ (e + 1)\<close>.\<close>

definition exponent :: "real \<Rightarrow> int" where
  "exponent x =
     (if 1 \<le> x then int (bits (nat \<lfloor>x\<rfloor>)) - 1 else - int (bits (nat \<lceil>1 / x\<rceil> - 1)))"

definition round_half_even :: "real \<Rightarrow> int" where
  "round_half_even m =
     (let f = \<lfloor>m\<rfloor>; d = m - of_int f
      in if d < 1 / 2 then f else if 1 / 2 < d then f + 1 else if even f then f else f + 1)"

text \<open>
  Rounding a non-negative real to a double: 53 significant binary digits, the exponent of
  the subnormal range from \<open>- 1022\<close> down, and overflow to infinity from \<open>2 ^ 1024\<close> on.
\<close>

definition round_double :: "real \<Rightarrow> double" where
  "round_double x =
     (if x \<le> 0 then Finite 0
      else
        (let e = max (exponent x) (- 1022);
             u = pow2 (e - 52);
             r = of_int (round_half_even (x / u)) * u
         in if pow2 1024 \<le> r then Infinity else Finite r))"

text \<open>\<^verbatim>\<open>a / b\<close> and \<^verbatim>\<open>a * b\<close> on non-negative numbers.\<close>

definition js_div :: "double \<Rightarrow> double \<Rightarrow> double" where
  "js_div a b =
     (case (a, b) of
        (Finite x, Finite y) \<Rightarrow>
          if y = 0 then (if x = 0 then NaN else Infinity) else round_double (x / y)
      | (Finite x, Infinity) \<Rightarrow> Finite 0
      | (Infinity, Finite y) \<Rightarrow> Infinity
      | _ \<Rightarrow> NaN)"

definition js_mul :: "double \<Rightarrow> double \<Rightarrow> double" where
  "js_mul a b =
     (case (a, b) of
        (Finite x, Finite y) \<Rightarrow> round_double (x * y)
      | (Finite x, Infinity) \<Rightarrow> if x = 0 then NaN else Infinity
      | (Infinity, Finite y) \<Rightarrow> if y = 0 then NaN else Infinity
      | (Infinity, Infinity) \<Rightarrow> Infinity
      | _ \<Rightarrow> NaN)"

text \<open>A count as a number (exact below \<open>2 ^ 53\<close>).\<close>

definition to_number :: "nat \<Rightarrow> double" where
  "to_number n = round_double (real n)"

subsection \<open>Documents\<close>

type_synonym oid = nat
type_synonym date = nat

record quiz_question =
  question :: "jsstring option"
  options :: "js_object option"
  correct_answer :: "jsstring option"
  correctAnswerExplanation :: "jsstring option"
  explanations :: "js_object option"

datatype status = Pending | Processing | Completed | Failed

record lecture =
  lecture_id :: oid
  title :: jsstring
  professorId :: oid
  extractedText :: "jsstring option"
  processingStatus :: status
  quizGenerated :: bool
  quizGenerationError :: "jsstring option"
  quizzesCount :: nat
  lastProcessed :: "date option"
  lecture_classId :: "oid option"
  lecture_className :: "jsstring option"

record quiz =
  quiz_id :: oid
  lectureId :: oid
  lectureTitle :: jsstring
  questions :: "quiz_question list"
  totalQuestions :: nat
  generatedDate :: date
  createdBy :: oid
  quiz_classId :: "oid option"
  quiz_className :: "jsstring option"

record student_answer =
  questionIndex :: int
  answer_question :: "jsstring option"
  selectedOption :: "jsstring option"

record detailed_answer =
  da_questionIndex :: int
  da_question :: "jsstring option"
  da_selectedOption :: "jsstring option"
  da_correctOption :: "jsstring option"
  da_isCorrect :: bool

record question_detail =
  qd_questionIndex :: int
  qd_questionText :: "jsstring option"
  qd_options :: "js_object option"
  qd_studentAnswer :: "jsstring option"
  qd_correctAnswer :: "jsstring option"
  qd_isCorrect :: bool

record quiz_result =
  result_id :: oid
  r_quizId :: oid
  r_lectureId :: oid
  r_classId :: "oid option"
  r_studentId :: oid
  r_studentName :: jsstring
  r_score :: nat
  r_totalQuestions :: nat
  r_percentage :: double
  r_timeTakenSeconds :: nat
  r_submissionDate :: date
  r_answers :: "detailed_answer list"

record class_student =
  cs_studentId :: oid
  cs_classId :: oid
  cs_isActive :: bool

record class_doc =
  class_id :: oid
  class_name :: jsstring
  class_subject :: jsstring

record db =
  lectureCollection :: "lecture list"
  quizCollection :: "quiz list"
  quizResultCollection :: "quiz_result list"
  classStudentCollection :: "class_student list"
  classCollection :: "class_doc list"

record session =
  userId :: oid
  userName :: jsstring
  userType :: jsstring

text \<open>
  What a handler takes from outside the database: the clock (read once for a request),
  the id the database gives the next created document, and whether \<^verbatim>\<open>create\<close> throws
  (with which message).
\<close>

record env =
  now :: date
  new_id :: oid
  save_error :: "jsstring option"

subsection \<open>Responses\<close>

text \<open>A question as \<^verbatim>\<open>GET /api/quiz/:quizId\<close> sends it: an object, as its list of properties.\<close>

datatype field_value = Text "jsstring option" | Object "js_object option"

type_synonym client_question = "(string \<times> field_value) list"

record quiz_for_client =
  c_id :: oid
  c_lectureTitle :: jsstring
  c_totalQuestions :: nat
  c_questions :: "client_question list"

record take_quiz_view =
  v_lectureTitle :: jsstring
  v_totalQuestions :: nat
  v_classId :: "oid option"
  v_className :: "jsstring option"
  v_classSubject :: "jsstring option"
  v_userName :: jsstring
  v_classContext :: bool

record generate_result =
  g_message :: jsstring
  g_quizId :: oid
  g_totalQuestions :: nat
  g_title :: jsstring
  g_className :: "jsstring option"

record submit_result =
  s_score :: nat
  s_totalQuestions :: nat
  s_percentage :: double
  s_timeTakenSeconds :: nat
  s_quizResultId :: oid
  s_lectureId :: oid
  s_classId :: "oid option"
  s_className :: "jsstring option"
  s_quizTitle :: jsstring
  s_questionDetails :: "question_detail list"
  s_quizId :: oid

record explanation_result =
  e_explanation :: jsstring
  e_explanationType :: jsstring
  e_correctAnswer :: "jsstring option"
  e_correctOption :: prop_value
  e_wrongOption :: prop_value
  e_hasDetailedExplanations :: bool
  e_hasCorrectExplanation :: bool

text \<open>
  \<open>Json_failure c m\<close> is \<^verbatim>\<open>res.status(c).json({success: false, message: m})\<close>,
  \<open>Send c t\<close> is \<^verbatim>\<open>res.status(c).send(t)\<close>. \<open>Redirect_already_taken t\<close> is the redirect
  to \<^verbatim>\<open>/quiz-results?alreadyTaken=true&quizTitle=\<close> followed by the URI-encoded title \<open>t\<close>.
  The other constructors are the success responses, with their payload.
\<close>

datatype response =
    Json_failure nat jsstring
  | Send nat jsstring
  | Redirect jsstring
  | Redirect_already_taken jsstring
  | Render_takeQuiz take_quiz_view
  | Json_quiz quiz_for_client
  | Json_generated generate_result
  | Json_submitted submit_result
  | Json_explanation explanation_result

subsection \<open>Collection operations\<close>

fun update_first :: "('a \<Rightarrow> bool) \<Rightarrow> ('a \<Rightarrow> 'a) \<Rightarrow> 'a list \<Rightarrow> 'a list" where
  "update_first P f [] = []"
| "update_first P f (x # xs) = (if P x then f x # xs else x # update_first P f xs)"

definition lecture_findById :: "db \<Rightarrow> oid \<Rightarrow> lecture option" where
  "lecture_findById d i = find (\<lambda>l. lecture_id l = i) (lectureCollection d)"

definition lecture_findByIdAndUpdate :: "oid \<Rightarrow> (lecture \<Rightarrow> lecture) \<Rightarrow> db \<Rightarrow> db" where
  "lecture_findByIdAndUpdate i f d =
     d\<lparr>lectureCollection := update_first (\<lambda>l. lecture_id l = i) f (lectureCollection d)\<rparr>"

definition quiz_findById :: "db \<Rightarrow> oid \<Rightarrow> quiz option" where
  "quiz_findById d i = find (\<lambda>q. quiz_id q = i) (quizCollection d)"

definition quiz_findOne_lectureId :: "db \<Rightarrow> oid \<Rightarrow> quiz option" where
  "quiz_findOne_lectureId d l = find (\<lambda>q. lectureId q = l) (quizCollection d)"

definition quiz_create :: "quiz \<Rightarrow> db \<Rightarrow> db" where
  "quiz_create q d = d\<lparr>quizCollection := quizCollection d @ [q]\<rparr>"

definition class_findById :: "db \<Rightarrow> oid \<Rightarrow> class_doc option" where
  "class_findById d i = find (\<lambda>c. class_id c = i) (classCollection d)"

text \<open>\<^verbatim>\<open>classStudentCollection.findOne({studentId, classId, isActive: true})\<close>\<close>

definition enrollment_findOne :: "db \<Rightarrow> oid \<Rightarrow> oid \<Rightarrow> class_student option" where
  "enrollment_findOne d student c =
     find (\<lambda>e. cs_studentId e = student \<and> cs_classId e = c \<and> cs_isActive e)
       (classStudentCollection d)"

text \<open>\<^verbatim>\<open>quizResultCollection.findOne({quizId, studentId})\<close>\<close>

definition result_findOne :: "db \<Rightarrow> oid \<Rightarrow> oid \<Rightarrow> quiz_result option" where
  "result_findOne d q student =
     find (\<lambda>r. r_quizId r = q \<and> r_studentId r = student) (quizResultCollection d)"

definition result_create :: "quiz_result \<Rightarrow> db \<Rightarrow> db" where
  "result_create r d = d\<lparr>quizResultCollection := quizResultCollection d @ [r]\<rparr>"

subsection \<open>Quiz generation: \<^verbatim>\<open>POST /generate_quiz/:id\<close>\<close>

text \<open>
  The handler's view of the generative model: the call throws (\<open>Api_error\<close>, with the
  error's message) or returns a text, of which the handler sees what \<^verbatim>\<open>JSON.parse\<close>
  makes: a syntax error (with its message), a value that is not an array, or an array of
  question objects.
\<close>

datatype parsed = Parse_error jsstring | Not_array | Question_array "quiz_question list"

datatype ai_outcome = Api_error jsstring | Api_text parsed

definition labels :: "jsstring list" where
  "labels = [ascii ''A'', ascii ''B'', ascii ''C'', ascii ''D'']"

definition fallback_explanation :: "jsstring \<Rightarrow> jsstring" where
  "fallback_explanation ca =
     ascii ''This option is incorrect. The correct answer is '' @ ca
     @ ascii ''. Please review the lecture material for more details.''"

text \<open>The body of the inner \<^verbatim>\<open>['A', 'B', 'C', 'D'].forEach\<close>.\<close>

definition check_option :: "jsstring \<Rightarrow> jsstring \<Rightarrow> js_object \<Rightarrow> js_object" where
  "check_option ca option ex =
     (if option \<noteq> ca \<and> blank (map_of ex option)
      then set_prop ex option (fallback_explanation ca) else ex)"

definition missing_fields_message :: "nat \<Rightarrow> jsstring" where
  "missing_fields_message index =
     ascii ''Question '' @ num_str (index + 1)
     @ ascii '' is missing required fields (including explanations)''"

definition invalid_answer_message :: "nat \<Rightarrow> jsstring" where
  "invalid_answer_message index =
     ascii ''Question '' @ num_str (index + 1) @ ascii '' has invalid correct_answer''"

text \<open>
  The body of \<^verbatim>\<open>generatedQuiz.forEach((q, index) => ...)\<close>: \<open>Inl\<close> is the message of the
  error it throws, \<open>Inr\<close> the question as the body leaves it.
\<close>

definition validate_question :: "nat \<Rightarrow> quiz_question \<Rightarrow> jsstring + quiz_question" where
  "validate_question index q =
     (if \<not> truthy (question q) \<or> \<not> present (options q) \<or> \<not> truthy (correct_answer q)
         \<or> \<not> present (explanations q) \<or> \<not> truthy (correctAnswerExplanation q)
      then Inl (missing_fields_message index)
      else
        (case (correct_answer q, explanations q) of
          (Some ca, Some ex) \<Rightarrow>
            if ca \<notin> set labels then Inl (invalid_answer_message index)
            else Inr (q\<lparr>explanations := Some (set_prop (fold (check_option ca) labels ex) ca [])\<rparr>)
        | _ \<Rightarrow> Inl (missing_fields_message index)))"

fun validate_from :: "nat \<Rightarrow> quiz_question list \<Rightarrow> jsstring + quiz_question list" where
  "validate_from index [] = Inr []"
| "validate_from index (q # qs) =
     (case validate_question index q of
        Inl m \<Rightarrow> Inl m
      | Inr q' \<Rightarrow>
          (case validate_from (Suc index) qs of
             Inl m \<Rightarrow> Inl m
           | Inr qs' \<Rightarrow> Inr (q' # qs')))"

text \<open>The parse-and-validate block: \<open>Inl\<close> is \<^verbatim>\<open>parseError.message\<close>.\<close>

definition parse_and_validate :: "parsed \<Rightarrow> jsstring + quiz_question list" where
  "parse_and_validate p =
     (case p of
        Parse_error m \<Rightarrow> Inl m
      | Not_array \<Rightarrow> Inl (ascii ''Response is not an array'')
      | Question_array generatedQuiz \<Rightarrow>
          if length generatedQuiz = 0 then Inl (ascii ''No questions generated'')
          else validate_from 0 generatedQuiz)"

definition mark_failed :: "jsstring \<Rightarrow> lecture \<Rightarrow> lecture" where
  "mark_failed m l =
     l\<lparr>processingStatus := Failed, quizGenerated := False, quizGenerationError := Some m\<rparr>"

text \<open>\<^verbatim>\<open>!extractedText || extractedText.length < 50\<close>\<close>

definition too_short :: "jsstring option \<Rightarrow> bool" where
  "too_short v =
     (case v of None \<Rightarrow> True | Some t \<Rightarrow> t = [] \<or> length t < 50)"

definition newQuiz :: "env \<Rightarrow> session \<Rightarrow> oid \<Rightarrow> lecture \<Rightarrow> quiz_question list \<Rightarrow> quiz" where
  "newQuiz e sess lid lec generatedQuiz =
     \<lparr>quiz_id = new_id e,
      lectureId = lid,
      lectureTitle = title lec,
      questions = generatedQuiz,
      totalQuestions = length generatedQuiz,
      generatedDate = now e,
      createdBy = userId sess,
      quiz_classId = lecture_classId lec,
      quiz_className = (if truthy (lecture_className lec) then lecture_className lec else None)\<rparr>"

text \<open>The handler after the lecture is set to \<^verbatim>\<open>processing\<close>: the model call and what follows.\<close>

definition generate_from_model ::
  "env \<Rightarrow> ai_outcome \<Rightarrow> session \<Rightarrow> oid \<Rightarrow> lecture \<Rightarrow> db \<Rightarrow> response \<times> db" where
  "generate_from_model e ai sess lid lec d =
     (case ai of
        Api_error m \<Rightarrow>
          (if str_includes m (ascii ''quota'') \<or> str_includes m (ascii ''limit'')
           then Json_failure 429 (ascii ''API quota exceeded. Please try again later.'')
           else Json_failure 500
             (ascii ''Failed to generate enhanced quiz. Please check your API key and try again.''),
           lecture_findByIdAndUpdate lid (mark_failed (ascii ''Enhanced AI API Error: '' @ m)) d)
      | Api_text p \<Rightarrow>
          (case parse_and_validate p of
             Inl m \<Rightarrow>
               (Json_failure 500 (ascii ''Failed to parse enhanced AI response. Please try again.''),
                lecture_findByIdAndUpdate lid
                  (mark_failed (ascii ''Enhanced AI response parsing failed: '' @ m)) d)
           | Inr generatedQuiz \<Rightarrow>
               (case save_error e of
                  Some m \<Rightarrow>
                    (Json_failure 500 (ascii ''Failed to save enhanced quiz to database: '' @ m),
                     lecture_findByIdAndUpdate lid
                       (mark_failed (ascii ''Enhanced database save error: '' @ m)) d)
                | None \<Rightarrow>
                    (Json_generated
                       \<lparr>g_message =
                          ascii ''Enhanced quiz generated successfully with ''
                          @ num_str (length generatedQuiz)
                          @ ascii '' questions and detailed explanations!'',
                        g_quizId = new_id e,
                        g_totalQuestions = length generatedQuiz,
                        g_title = title lec,
                        g_className = lecture_className lec\<rparr>,
                     lecture_findByIdAndUpdate lid
                       (\<lambda>l. l\<lparr>quizGenerated := True, processingStatus := Completed,
                               quizzesCount := 1, lastProcessed := Some (now e)\<rparr>)
                       (quiz_create (newQuiz e sess lid lec generatedQuiz) d)))))"

definition generate_quiz ::
  "env \<Rightarrow> ai_outcome \<Rightarrow> db \<Rightarrow> session \<Rightarrow> oid \<Rightarrow> response \<times> db" where
  "generate_quiz e ai d sess lid =
     (case lecture_findById d lid of
        None \<Rightarrow> (Json_failure 404 (ascii ''Lecture not found''), d)
      | Some lec \<Rightarrow>
          if userType sess = ascii ''teacher'' \<and> professorId lec \<noteq> userId sess
          then (Json_failure 403
                  (ascii ''Access denied. You can only generate quizzes for your own lectures.''), d)
          else if present (quiz_findOne_lectureId d lid)
          then (Json_failure 400 (ascii ''Quiz already generated for this lecture''), d)
          else
            (let d1 = lecture_findByIdAndUpdate lid
                        (\<lambda>l. l\<lparr>processingStatus := Processing, lastProcessed := Some (now e)\<rparr>) d
             in if too_short (extractedText lec)
                then (Json_failure 400
                        (ascii ''Extracted text is too short or missing for quiz generation.''),
                      lecture_findByIdAndUpdate lid
                        (mark_failed (ascii ''Text too short for quiz generation'')) d1)
                else generate_from_model e ai sess lid lec d1))"

subsection \<open>The quiz page: \<^verbatim>\<open>GET /take_quiz/:quizId\<close>\<close>

text \<open>The handler once the enrollment check is passed.\<close>

definition take_quiz_page :: "db \<Rightarrow> session \<Rightarrow> oid \<Rightarrow> oid option \<Rightarrow> quiz \<Rightarrow> response" where
  "take_quiz_page d sess quizId classId qz =
     (if present (result_findOne d quizId (userId sess))
      then Redirect_already_taken (lectureTitle qz)
      else
        (let classInfo =
               (case quiz_classId qz of None \<Rightarrow> None | Some c \<Rightarrow> class_findById d c)
         in Render_takeQuiz
              \<lparr>v_lectureTitle = lectureTitle qz,
               v_totalQuestions = totalQuestions qz,
               v_classId = quiz_classId qz,
               v_className = map_option class_name classInfo,
               v_classSubject = map_option class_subject classInfo,
               v_userName = userName sess,
               v_classContext = present classId\<rparr>))"

text \<open>
  \<open>classId\<close> is the optional query parameter \<^verbatim>\<open>req.query.classId\<close>; the class whose
  enrollment is checked is \<^verbatim>\<open>classId || quiz.classId\<close>.
\<close>

definition take_quiz :: "db \<Rightarrow> session \<Rightarrow> oid \<Rightarrow> oid option \<Rightarrow> response" where
  "take_quiz d sess quizId classId =
     (if userType sess \<noteq> ascii ''student''
      then Redirect (ascii ''/login?message=Access denied. Only students can take quizzes.'')
      else
        (case quiz_findById d quizId of
           None \<Rightarrow> Send 404 (ascii ''Quiz not found.'')
         | Some qz \<Rightarrow>
             (case (case classId of Some c \<Rightarrow> Some c | None \<Rightarrow> quiz_classId qz) of
                Some targetClassId \<Rightarrow>
                  if \<not> present (enrollment_findOne d (userId sess) targetClassId)
                  then Send 403 (ascii ''You are not enrolled in this class.'')
                  else take_quiz_page d sess quizId classId qz
              | None \<Rightarrow> take_quiz_page d sess quizId classId qz)))"

subsection \<open>Question delivery: \<^verbatim>\<open>GET /api/quiz/:quizId\<close>\<close>

definition questionsForClient :: "quiz_question list \<Rightarrow> client_question list" where
  "questionsForClient qs =
     map (\<lambda>q. [(''question'', Text (question q)), (''options'', Object (options q))]) qs"

definition api_quiz :: "db \<Rightarrow> session \<Rightarrow> oid \<Rightarrow> response" where
  "api_quiz d sess quizId =
     (if userType sess \<noteq> ascii ''student''
      then Json_failure 403 (ascii ''Access denied. Only students can access quiz questions.'')
      else
        (case quiz_findById d quizId of
           None \<Rightarrow> Json_failure 404 (ascii ''Quiz not found.'')
         | Some qz \<Rightarrow>
             Json_quiz
               \<lparr>c_id = quiz_id qz,
                c_lectureTitle = lectureTitle qz,
                c_totalQuestions = totalQuestions qz,
                c_questions = questionsForClient (questions qz)\<rparr>))"

subsection \<open>Submission and scoring: \<^verbatim>\<open>POST /api/quiz/submit/:quizId\<close>\<close>

text \<open>The variables the scoring loop updates.\<close>

record scoring =
  score :: nat
  detailedAnswers :: "detailed_answer list"
  enhancedQuestionDetails :: "question_detail list"

text \<open>The body of \<^verbatim>\<open>studentAnswers.forEach(sAnswer => ...)\<close>.\<close>

definition score_answer :: "quiz_question list \<Rightarrow> student_answer \<Rightarrow> scoring \<Rightarrow> scoring" where
  "score_answer qs sAnswer st =
     (case at_index qs (questionIndex sAnswer) of
        None \<Rightarrow> st
      | Some correspondingQuestion \<Rightarrow>
          (let isCorrect = (selectedOption sAnswer = correct_answer correspondingQuestion)
           in \<lparr>score = (if isCorrect then score st + 1 else score st),
               detailedAnswers = detailedAnswers st @
                 [\<lparr>da_questionIndex = questionIndex sAnswer,
                   da_question = answer_question sAnswer,
                   da_selectedOption = selectedOption sAnswer,
                   da_correctOption = correct_answer correspondingQuestion,
                   da_isCorrect = isCorrect\<rparr>],
               enhancedQuestionDetails = enhancedQuestionDetails st @
                 [\<lparr>qd_questionIndex = questionIndex sAnswer,
                   qd_questionText = question correspondingQuestion,
                   qd_options = options correspondingQuestion,
                   qd_studentAnswer = selectedOption sAnswer,
                   qd_correctAnswer = correct_answer correspondingQuestion,
                   qd_isCorrect = isCorrect\<rparr>]\<rparr>))"

definition score_quiz :: "quiz_question list \<Rightarrow> student_answer list \<Rightarrow> scoring" where
  "score_quiz qs studentAnswers =
     fold (score_answer qs) studentAnswers
       \<lparr>score = 0, detailedAnswers = [], enhancedQuestionDetails = []\<rparr>"

text \<open>\<^verbatim>\<open>(totalQuestions > 0) ? (score / totalQuestions) * 100 : 0\<close>\<close>

definition percentage :: "nat \<Rightarrow> nat \<Rightarrow> double" where
  "percentage sc totalQ =
     (if totalQ > 0 then js_mul (js_div (to_number sc) (to_number totalQ)) (Finite 100)
      else Finite 0)"

definition newQuizResult ::
  "env \<Rightarrow> session \<Rightarrow> oid \<Rightarrow> quiz \<Rightarrow> scoring \<Rightarrow> nat \<Rightarrow> quiz_result" where
  "newQuizResult e sess quizId qz st timeTakenSeconds =
     \<lparr>result_id = new_id e,
      r_quizId = quizId,
      r_lectureId = lectureId qz,
      r_classId = quiz_classId qz,
      r_studentId = userId sess,
      r_studentName = userName sess,
      r_score = score st,
      r_totalQuestions = totalQuestions qz,
      r_percentage = percentage (score st) (totalQuestions qz),
      r_timeTakenSeconds = timeTakenSeconds,
      r_submissionDate = now e,
      r_answers = detailedAnswers st\<rparr>"

text \<open>The response to an accepted submission; \<open>classInfo\<close> is the class looked up for it.\<close>

definition submitted ::
  "env \<Rightarrow> oid \<Rightarrow> quiz \<Rightarrow> scoring \<Rightarrow> nat \<Rightarrow> class_doc option \<Rightarrow> submit_result" where
  "submitted e quizId qz st timeTakenSeconds classInfo =
     \<lparr>s_score = score st,
      s_totalQuestions = totalQuestions qz,
      s_percentage = percentage (score st) (totalQuestions qz),
      s_timeTakenSeconds = timeTakenSeconds,
      s_quizResultId = new_id e,
      s_lectureId = lectureId qz,
      s_classId = quiz_classId qz,
      s_className = map_option class_name classInfo,
      s_quizTitle = lectureTitle qz,
      s_questionDetails = enhancedQuestionDetails st,
      s_quizId = quizId\<rparr>"

text \<open>The handler once the duplicate check is passed.\<close>

definition score_and_save ::
  "env \<Rightarrow> db \<Rightarrow> session \<Rightarrow> oid \<Rightarrow> quiz \<Rightarrow> student_answer list \<Rightarrow> nat \<Rightarrow> response \<times> db" where
  "score_and_save e d sess quizId qz studentAnswers timeTakenSeconds =
     (let st = score_quiz (questions qz) studentAnswers
      in case save_error e of
           Some m \<Rightarrow> (Json_failure 500 (ascii ''Failed to submit quiz: '' @ m), d)
         | None \<Rightarrow>
             (let classInfo =
                    (case quiz_classId qz of None \<Rightarrow> None | Some c \<Rightarrow> class_findById d c)
              in (Json_submitted (submitted e quizId qz st timeTakenSeconds classInfo),
                  result_create (newQuizResult e sess quizId qz st timeTakenSeconds) d)))"

text \<open>The enrollment check: the quiz belongs to a class and the student has no active enrollment in it.\<close>

definition not_enrolled :: "db \<Rightarrow> session \<Rightarrow> quiz \<Rightarrow> bool" where
  "not_enrolled d sess qz =
     (case quiz_classId qz of
        None \<Rightarrow> False
      | Some c \<Rightarrow> \<not> present (enrollment_findOne d (userId sess) c))"

definition submit_quiz ::
  "env \<Rightarrow> db \<Rightarrow> session \<Rightarrow> oid \<Rightarrow> student_answer list \<Rightarrow> nat \<Rightarrow> response \<times> db" where
  "submit_quiz e d sess quizId studentAnswers timeTakenSeconds =
     (if userType sess \<noteq> ascii ''student''
      then (Json_failure 403 (ascii ''Access denied. Only students can submit quizzes.''), d)
      else
        (case quiz_findById d quizId of
           None \<Rightarrow> (Json_failure 404 (ascii ''Quiz not found for scoring.''), d)
         | Some qz \<Rightarrow>
             if not_enrolled d sess qz
             then (Json_failure 403 (ascii ''You are not enrolled in the class for this quiz.''), d)
             else if present (result_findOne d quizId (userId sess))
             then (Json_failure 400 (ascii ''You have already submitted this quiz.''), d)
             else score_and_save e d sess quizId qz studentAnswers timeTakenSeconds))"

subsection \<open>Explanation lookup: \<^verbatim>\<open>POST /api/explanation/get\<close>\<close>

text \<open>The text put between the stored explanation and the correct-answer explanation.\<close>

definition why_correct :: "jsstring option \<Rightarrow> jsstring" where
  "why_correct ca =
     [0x0A, 0x0A, 0xD83D, 0xDCA1] @ ascii '' **Why '' @ to_str ca @ ascii '' is correct:** ''"

text \<open>What the lookup reads at \<^verbatim>\<open>question.explanations[wrongAnswer]\<close>.\<close>

definition stored_explanation :: "quiz_question \<Rightarrow> jsstring \<Rightarrow> prop_value" where
  "stored_explanation q wrongAnswer =
     (case explanations q of None \<Rightarrow> Undefined | Some ex \<Rightarrow> read_prop ex wrongAnswer)"

text \<open>
  The messages of the TypeErrors the handler can throw (in the wording of V8): reading a
  property of \<^verbatim>\<open>undefined\<close>, and calling \<^verbatim>\<open>.trim()\<close> on a value that has no such method.
\<close>

definition type_error_message :: "jsstring \<Rightarrow> jsstring" where
  "type_error_message key =
     ascii ''Cannot read properties of undefined (reading '' @ [0x27] @ key @ [0x27]
     @ ascii '')''"

definition trim_error_message :: jsstring where
  "trim_error_message = ascii ''question.explanations[wrongAnswer].trim is not a function''"

text \<open>
  The condition \<^verbatim>\<open>question.explanations && question.explanations[wrongAnswer] &&
  question.explanations[wrongAnswer].trim() !== ''\<close>: \<open>Inr\<close> is its value, \<open>Inl\<close> the message
  of the error it throws when the value read is truthy and not a string.
\<close>

definition has_detailed :: "quiz_question \<Rightarrow> jsstring \<Rightarrow> jsstring + bool" where
  "has_detailed q wrongAnswer =
     (case stored_explanation q wrongAnswer of
        Undefined \<Rightarrow> Inr False
      | Str s \<Rightarrow> Inr (s \<noteq> [] \<and> trim s \<noteq> [])
      | Method _ \<Rightarrow> Inl trim_error_message
      | Prototype \<Rightarrow> Inl trim_error_message)"

text \<open>
  The explanation and its type, given the value of the condition and the question's
  options object.
\<close>

definition explanation_text ::
  "quiz_question \<Rightarrow> js_object \<Rightarrow> jsstring \<Rightarrow> bool \<Rightarrow> jsstring \<times> jsstring" where
  "explanation_text q opts wrongAnswer detailed =
     (if detailed
      then
        ((if non_blank (correctAnswerExplanation q)
          then show_prop (stored_explanation q wrongAnswer) @ why_correct (correct_answer q)
               @ to_str (correctAnswerExplanation q)
          else show_prop (stored_explanation q wrongAnswer)),
         ascii ''detailed'')
      else
        ((if non_blank (correctAnswerExplanation q)
          then ascii ''The correct answer is '' @ to_str (correct_answer q) @ ascii '') ''
               @ show_prop (read_prop opts (to_str (correct_answer q))) @ ascii ''.''
               @ [0x0A, 0x0A] @ to_str (correctAnswerExplanation q)
          else ascii ''The correct answer is '' @ to_str (correct_answer q) @ ascii '') ''
               @ show_prop (read_prop opts (to_str (correct_answer q)))
               @ ascii ''. Please review the lecture material for detailed understanding.''),
         ascii ''basic''))"

text \<open>
  The response carries the two option values as they are handed to \<^verbatim>\<open>res.json\<close> (which
  leaves out a property whose value is \<^verbatim>\<open>undefined\<close> or a function).
\<close>

definition get_explanation :: "db \<Rightarrow> session \<Rightarrow> oid \<Rightarrow> int \<Rightarrow> jsstring \<Rightarrow> response" where
  "get_explanation d sess quizId qIndex wrongAnswer =
     (if userType sess \<noteq> ascii ''student''
      then Json_failure 403 (ascii ''Access denied. Students only.'')
      else
        (case quiz_findById d quizId of
           None \<Rightarrow> Json_failure 404 (ascii ''Quiz not found.'')
         | Some qz \<Rightarrow>
             (case at_index (questions qz) qIndex of
                None \<Rightarrow> Json_failure 404 (ascii ''Question not found.'')
              | Some q \<Rightarrow>
                  (case has_detailed q wrongAnswer of
                     Inl m \<Rightarrow> Json_failure 500 (ascii ''Failed to retrieve explanation: '' @ m)
                   | Inr detailed \<Rightarrow>
                       (case options q of
                          None \<Rightarrow>
                            Json_failure 500
                              (ascii ''Failed to retrieve explanation: ''
                               @ type_error_message (to_str (correct_answer q)))
                        | Some opts \<Rightarrow>
                            Json_explanation
                              \<lparr>e_explanation = fst (explanation_text q opts wrongAnswer detailed),
                               e_explanationType = snd (explanation_text q opts wrongAnswer detailed),
                               e_correctAnswer = correct_answer q,
                               e_correctOption = read_prop opts (to_str (correct_answer q)),
                               e_wrongOption = read_prop opts wrongAnswer,
                               e_hasDetailedExplanations =
                                 (case explanations q of
                                    None \<Rightarrow> False
                                  | Some ex \<Rightarrow> length (remdups (map fst ex)) > 0),
                               e_hasCorrectExplanation =
                                 non_blank (correctAnswerExplanation q)\<rparr>)))))"

subsection \<open>The properties in the specification's words\<close>

text \<open>
  An answer counts when the question at its index exists and its correct label is the
  selected option; the specified score is the number of submitted answers that count.
\<close>

definition answer_correct :: "quiz_question list \<Rightarrow> student_answer \<Rightarrow> bool" where
  "answer_correct qs a =
     (case at_index qs (questionIndex a) of
        None \<Rightarrow> False
      | Some q \<Rightarrow> correct_answer q = selectedOption a)"

definition spec_score :: "quiz_question list \<Rightarrow> student_answer list \<Rightarrow> nat" where
  "spec_score qs A = length (filter (answer_correct qs) A)"

definition in_range :: "quiz_question list \<Rightarrow> student_answer \<Rightarrow> bool" where
  "in_range qs a = (0 \<le> questionIndex a \<and> questionIndex a < int (length qs))"

text \<open>
  Explanation completeness of a question: the correct label is one of A to D, every other
  label has a non-empty explanation, and the correct label's explanation is the empty string.
\<close>

definition explanations_complete :: "quiz_question \<Rightarrow> bool" where
  "explanations_complete q =
     (case (correct_answer q, explanations q) of
        (Some ca, Some ex) \<Rightarrow>
          ca \<in> set labels \<and>
          list_all (\<lambda>l. if l = ca then map_of ex l = Some [] else truthy (map_of ex l)) labels
      | _ \<Rightarrow> False)"

text \<open>
  The entry that generation leaves for a label, given the correct label and the model's
  explanations: empty for the correct label, the synthesized fallback where the model's entry
  is missing or blank, the model's entry otherwise.
\<close>

definition expected_explanation :: "jsstring \<Rightarrow> js_object \<Rightarrow> jsstring \<Rightarrow> jsstring option" where
  "expected_explanation ca ex l =
     (if l = ca then Some []
      else if blank (map_of ex l) then Some (fallback_explanation ca)
      else map_of ex l)"

text \<open>
  The stored explanation of a question for a label is absent or blank; and the explanation
  text of a response, when it carries one.
\<close>

definition stored_blank :: "quiz_question \<Rightarrow> jsstring \<Rightarrow> bool" where
  "stored_blank q w = (case explanations q of None \<Rightarrow> True | Some ex \<Rightarrow> blank (map_of ex w))"

definition explanation_of :: "response \<Rightarrow> jsstring option" where
  "explanation_of r = (case r of Json_explanation x \<Rightarrow> Some (e_explanation x) | _ \<Rightarrow> None)"

text \<open>The quizzes of a lecture, and the results of a student for a quiz.\<close>

definition quizzes_of :: "db \<Rightarrow> oid \<Rightarrow> quiz list" where
  "quizzes_of d l = filter (\<lambda>q. lectureId q = l) (quizCollection d)"

definition results_of :: "db \<Rightarrow> oid \<Rightarrow> oid \<Rightarrow> quiz_result list" where
  "results_of d q student =
     filter (\<lambda>r. r_quizId r = q \<and> r_studentId r = student) (quizResultCollection d)"

definition is_generated :: "response \<Rightarrow> bool" where
  "is_generated r = (case r of Json_generated _ \<Rightarrow> True | _ \<Rightarrow> False)"

definition submitted_of :: "response \<Rightarrow> submit_result option" where
  "submitted_of r = (case r of Json_submitted x \<Rightarrow> Some x | _ \<Rightarrow> None)"

text \<open>A key that every plain object inherits a value for.\<close>

definition inherited_name :: "jsstring \<Rightarrow> bool" where
  "inherited_name key =
     (key = ascii ''__proto__'' \<or> (case map_of object_prototype key of None \<Rightarrow> False | Some _ \<Rightarrow> True))"

definition is_submitted :: "response \<Rightarrow> bool" where
  "is_submitted r = (case r of Json_submitted _ \<Rightarrow> True | _ \<Rightarrow> False)"

text \<open>The ownership check of the generation route lets the request through.\<close>

definition may_generate :: "session \<Rightarrow> lecture \<Rightarrow> bool" where
  "may_generate sess lec = (\<not> (userType sess = ascii ''teacher'' \<and> professorId lec \<noteq> userId sess))"

subsection \<open>A small installation, for concrete runs\<close>

text \<open>
  One teacher (id 10) with three lectures, of which the third has a quiz (id 5) of two
  questions for class 100; students 20 and 21 are enrolled in class 100, student 22 only in
  class 200; student 21 has submitted the quiz.
\<close>

definition model_question :: quiz_question where
  "model_question =
     \<lparr>question = Some (ascii ''2+2?''),
      options = Some [(ascii ''A'', ascii ''3''), (ascii ''B'', ascii ''4''),
                      (ascii ''C'', ascii ''5''), (ascii ''D'', ascii ''22'')],
      correct_answer = Some (ascii ''B''),
      correctAnswerExplanation = Some (ascii ''sum''),
      explanations = Some [(ascii ''A'', ascii ''low''), (ascii ''B'', ascii ''yes''),
                           (ascii ''C'', ascii '' '')]\<rparr>"

definition stored_question_0 :: quiz_question where
  "stored_question_0 =
     \<lparr>question = Some (ascii ''2+2?''),
      options = Some [(ascii ''A'', ascii ''3''), (ascii ''B'', ascii ''4''),
                      (ascii ''C'', ascii ''5''), (ascii ''D'', ascii ''22'')],
      correct_answer = Some (ascii ''B''),
      correctAnswerExplanation = Some (ascii ''sum''),
      explanations = Some [(ascii ''A'', ascii ''low''), (ascii ''B'', []),
                           (ascii ''C'', ascii ''high''), (ascii ''D'', ascii ''odd'')]\<rparr>"

definition stored_question_1 :: quiz_question where
  "stored_question_1 =
     \<lparr>question = Some (ascii ''3*3?''),
      options = Some [(ascii ''A'', ascii ''6''), (ascii ''B'', ascii ''33''),
                      (ascii ''C'', ascii ''9''), (ascii ''D'', ascii ''0'')],
      correct_answer = Some (ascii ''C''),
      correctAnswerExplanation = Some (ascii '' ''),
      explanations = Some [(ascii ''A'', ascii ''sum''), (ascii ''B'', ascii ''digits''),
                           (ascii ''C'', []), (ascii ''D'', ascii ''zero'')]\<rparr>"

definition stored_quiz :: quiz where
  "stored_quiz =
     \<lparr>quiz_id = 5, lectureId = 3, lectureTitle = ascii ''L3'',
      questions = [stored_question_0, stored_question_1], totalQuestions = 2,
      generatedDate = 900, createdBy = 10, quiz_classId = Some 100,
      quiz_className = Some (ascii ''Algebra'')\<rparr>"

definition a_lecture :: "oid \<Rightarrow> jsstring option \<Rightarrow> status \<Rightarrow> bool \<Rightarrow> lecture" where
  "a_lecture i txt st gen =
     \<lparr>lecture_id = i, title = ascii ''L'' @ num_str i, professorId = 10, extractedText = txt,
      processingStatus = st, quizGenerated = gen, quizGenerationError = None,
      quizzesCount = (if gen then 1 else 0), lastProcessed = None,
      lecture_classId = Some 100, lecture_className = Some (ascii ''Algebra'')\<rparr>"

definition stored_result :: quiz_result where
  "stored_result =
     \<lparr>result_id = 9, r_quizId = 5, r_lectureId = 3, r_classId = Some 100, r_studentId = 21,
      r_studentName = ascii ''Bo'', r_score = 0, r_totalQuestions = 2, r_percentage = Finite 0,
      r_timeTakenSeconds = 40, r_submissionDate = 950, r_answers = []\<rparr>"

definition installation :: db where
  "installation =
     \<lparr>lectureCollection =
        [a_lecture 1 (Some (replicate 60 0x61)) Pending False,
         a_lecture 2 (Some (ascii ''too short'')) Pending False,
         a_lecture 3 (Some (replicate 60 0x62)) Completed True],
      quizCollection = [stored_quiz],
      quizResultCollection = [stored_result],
      classStudentCollection =
        [\<lparr>cs_studentId = 20, cs_classId = 100, cs_isActive = True\<rparr>,
         \<lparr>cs_studentId = 21, cs_classId = 100, cs_isActive = True\<rparr>,
         \<lparr>cs_studentId = 22, cs_classId = 100, cs_isActive = False\<rparr>,
         \<lparr>cs_studentId = 22, cs_classId = 200, cs_isActive = True\<rparr>],
      classCollection =
        [\<lparr>class_id = 100, class_name = ascii ''Algebra'', class_subject = ascii ''Math''\<rparr>,
         \<lparr>class_id = 200, class_name = ascii ''Optics'', class_subject = ascii ''Physics''\<rparr>]\<rparr>"

text \<open>The same installation with one quiz (id 6) of twenty questions instead.\<close>

definition twenty_quiz :: quiz where
  "twenty_quiz =
     \<lparr>quiz_id = 6, lectureId = 3, lectureTitle = ascii ''L3'',
      questions = replicate 20 stored_question_0, totalQuestions = 20,
      generatedDate = 900, createdBy = 10, quiz_classId = Some 100,
      quiz_className = Some (ascii ''Algebra'')\<rparr>"

definition installation_20 :: db where
  "installation_20 = installation\<lparr>quizCollection := [twenty_quiz]\<rparr>"

definition teacher_10 :: session where
  "teacher_10 = \<lparr>userId = 10, userName = ascii ''Ti'', userType = ascii ''teacher''\<rparr>"

definition student :: "oid \<Rightarrow> session" where
  "student i = \<lparr>userId = i, userName = ascii ''S'' @ num_str i, userType = ascii ''student''\<rparr>"

definition an_env :: env where
  "an_env = \<lparr>now = 1000, new_id = 77, save_error = None\<rparr>"

definition answer :: "int \<Rightarrow> string \<Rightarrow> student_answer" where
  "answer i l = \<lparr>questionIndex = i, answer_question = None, selectedOption = Some (ascii l)\<rparr>"

section \<open>Properties\<close>

lemmas run_defs =
  installation_def stored_quiz_def stored_question_0_def stored_question_1_def a_lecture_def
  stored_result_def teacher_10_def student_def an_env_def answer_def model_question_def
  ascii_def present_def truthy_def

lemmas look_defs = trim_def is_whitespace_def ascii_def

lemmas find_defs =
  quiz_findById_def quiz_findOne_lectureId_def lecture_findById_def class_findById_def
  enrollment_findOne_def result_findOne_def not_enrolled_def

lemmas gen_defs =
  generate_quiz_def generate_from_model_def parse_and_validate_def validate_question_def
  check_option_def labels_def blank_def trim_def is_whitespace_def set_prop_def too_short_def
  newQuiz_def lecture_findByIdAndUpdate_def quiz_create_def mark_failed_def is_generated_def
  fallback_explanation_def missing_fields_message_def invalid_answer_message_def may_generate_def


subsection \<open>Rounding\<close>

lemma bits_0 [simp]: "bits 0 = 0"
  by (simp add: bits.simps)

lemma bits_pos: "0 < n \<Longrightarrow> bits n = Suc (bits (n div 2))"
  by (subst bits.simps) simp

lemma bits_bounds: "0 < n \<Longrightarrow> 2 ^ (bits n - 1) \<le> n \<and> n < 2 ^ bits n"
proof (induction n rule: bits.induct)
  case (1 n)
  note b = bits_pos [OF "1.prems"]
  show ?case
  proof (cases "n div 2 = 0")
    case True
    then show ?thesis
      using "1.prems" unfolding b by (simp add: div_eq_0_iff)
  next
    case False
    then have ih: "2 ^ (bits (n div 2) - 1) \<le> n div 2" "n div 2 < 2 ^ bits (n div 2)"
      using "1.IH" "1.prems" by auto
    from False have "bits (n div 2) = Suc (bits (n div 2 div 2))"
      by (intro bits_pos) simp
    then obtain k where k: "bits (n div 2) = Suc k"
      by blast
    have "2 * 2 ^ k \<le> n" "n < 2 * 2 ^ Suc k"
      using ih unfolding k by simp_all
    then show ?thesis
      unfolding b k by simp
  qed
qed

lemma pow2_powi: "pow2 e = 2 powi e"
  by (simp add: pow2_def power_int_def inverse_eq_divide power_one_over)

lemma pow2_pos [simp]: "0 < pow2 e"
  by (simp add: pow2_powi)

lemma pow2_add: "pow2 (a + b) = pow2 a * pow2 b"
  by (simp add: pow2_powi power_int_add)

lemma pow2_mono: "a \<le> b \<Longrightarrow> pow2 a \<le> pow2 b"
  by (simp add: pow2_powi power_int_increasing)

lemma pow2_strict_mono: "a < b \<Longrightarrow> pow2 a < pow2 b"
  by (simp add: pow2_powi power_int_strict_increasing)

lemma pow2_less_D: "pow2 a < pow2 b \<Longrightarrow> a < b"
  using pow2_mono [of b a] by (cases "a < b") auto

lemma pow2_nat: "pow2 (int n) = 2 ^ n"
  by (simp add: pow2_def)

lemma pow2_neg_nat: "pow2 (- int n) = 1 / 2 ^ n"
  by (simp add: pow2_powi power_int_minus inverse_eq_divide)

lemma real_pow2_le: "2 ^ k \<le> (n::nat) \<Longrightarrow> (2::real) ^ k \<le> real n"
  using of_nat_mono [of "2 ^ k" n, where ?'a = real] by simp

lemma real_le_pow2: "(n::nat) \<le> 2 ^ k \<Longrightarrow> real n \<le> 2 ^ k"
  using of_nat_mono [of n "2 ^ k", where ?'a = real] by simp

lemma exponent_bounds:
  assumes "0 < x"
  shows "pow2 (exponent x) \<le> x \<and> x < pow2 (exponent x + 1)"
proof (cases "1 \<le> x")
  case True
  define n where "n = nat \<lfloor>x\<rfloor>"
  have n: "0 < n"
    using True by (simp add: n_def)
  have "real n = of_int \<lfloor>x\<rfloor>"
    using True by (simp add: n_def)
  then have nx: "real n \<le> x" "x < real n + 1"
    by linarith+
  obtain k where k: "bits n = Suc k"
    using bits_pos [OF n] by blast
  have e: "exponent x = int k"
    using True by (simp add: exponent_def n_def [symmetric] k)
  from bits_bounds [OF n] have b: "2 ^ k \<le> n" "Suc n \<le> 2 ^ Suc k"
    unfolding k by simp_all
  have "2 ^ k \<le> x"
    using real_pow2_le [OF b(1)] nx by linarith
  moreover have "x < 2 ^ Suc k"
    using real_le_pow2 [OF b(2)] nx by simp
  moreover have "pow2 (int k + 1) = 2 ^ Suc k"
    using pow2_nat [of "Suc k"] by (simp add: add.commute)
  ultimately show ?thesis
    unfolding e using pow2_nat [of k] by simp
next
  case False
  define y where "y = 1 / x"
  define N where "N = nat \<lceil>y\<rceil>"
  have y: "1 < y"
    using False assms by (simp add: y_def)
  have "real N = of_int \<lceil>y\<rceil>"
    using y by (simp add: N_def)
  then have N: "y \<le> real N" "real N < y + 1"
    by linarith+
  then have N2: "2 \<le> N"
    using y by linarith
  define M where "M = N - 1"
  have M: "0 < M" "N = Suc M"
    using N2 by (simp_all add: M_def)
  obtain k where k: "bits M = Suc k"
    using bits_pos [OF M(1)] by blast
  have "bits (N - Suc 0) = Suc k"
    using k by (simp add: M_def)
  then have e: "exponent x = - int (Suc k)"
    using False by (simp add: exponent_def y_def [symmetric] N_def [symmetric])
  from bits_bounds [OF M(1)] have b: "2 ^ k \<le> M" "N \<le> 2 ^ Suc k"
    unfolding k M(2) by simp_all
  have NM: "real N = real M + 1"
    using M(2) by simp
  have "2 ^ k < y"
    using real_pow2_le [OF b(1)] N NM by linarith
  then have "x < 1 / 2 ^ k"
    using assms unfolding y_def by (simp add: field_simps)
  moreover have "y \<le> 2 ^ Suc k"
    using real_le_pow2 [OF b(2)] N by linarith
  then have "1 / 2 ^ Suc k \<le> x"
    using assms unfolding y_def by (simp add: field_simps)
  moreover have "pow2 (- int (Suc k) + 1) = 1 / 2 ^ k"
    using pow2_neg_nat [of k] by simp
  ultimately show ?thesis
    unfolding e using pow2_neg_nat [of "Suc k"] by simp
qed

lemma round_half_even_error: "\<bar>of_int (round_half_even m) - m\<bar> \<le> 1 / 2"
  unfolding round_half_even_def Let_def by (auto; linarith)

lemma round_half_even_int [simp]: "round_half_even (of_int k) = k"
  by (simp add: round_half_even_def)

lemma round_double_error:
  assumes "pow2 (- 1022) \<le> x" and "x < pow2 1023"
  shows "\<exists>r. round_double x = Finite r \<and> \<bar>r - x\<bar> \<le> x * pow2 (- 53)"
proof -
  have x: "0 < x"
    using assms(1) pow2_pos [of "- 1022"] by linarith
  define e where "e = exponent x"
  from exponent_bounds [OF x] have eb: "pow2 e \<le> x" "x < pow2 (e + 1)"
    by (simp_all add: e_def)
  have "pow2 (- 1022) < pow2 (e + 1)"
    using assms(1) eb(2) by linarith
  then have "- 1022 < e + 1"
    by (rule pow2_less_D)
  then have m: "max e (- 1022) = e"
    by simp
  define u where "u = pow2 (e - 52)"
  have u: "0 < u"
    by (simp add: u_def)
  define r where "r = of_int (round_half_even (x / u)) * u"
  have "(of_int (round_half_even (x / u)) - x / u) * u = r - x"
    using u by (simp add: r_def field_simps)
  then have "\<bar>r - x\<bar> = \<bar>(of_int (round_half_even (x / u)) - x / u) * u\<bar>"
    by simp
  also have "\<dots> = \<bar>of_int (round_half_even (x / u)) - x / u\<bar> * u"
    using u by (simp add: abs_mult)
  also have "\<dots> \<le> 1 / 2 * u"
    using round_half_even_error [of "x / u"] u by (simp add: mult_right_mono)
  also have "1 / 2 * u = pow2 e * pow2 (- 53)"
    using pow2_add [of e "- 53"] pow2_add [of "e - 53" 1]
    by (simp add: u_def pow2_def [of 1] pow2_add [of "e - 52" "- 1", simplified] pow2_def [of "- 1"])
  also have "\<dots> \<le> x * pow2 (- 53)"
    using eb(1) by (simp add: mult_right_mono)
  finally have err: "\<bar>r - x\<bar> \<le> x * pow2 (- 53)" .
  have "pow2 (- 53) \<le> 1"
    by (simp add: pow2_def)
  then have "x * pow2 (- 53) \<le> x"
    using x by (simp add: mult_left_le)
  then have "r \<le> 2 * x"
    using err by linarith
  also have "\<dots> < 2 * pow2 1023"
    using assms(2) by simp
  also have "2 * pow2 1023 = pow2 1024"
    using pow2_add [of 1 1023] by (simp add: pow2_def [of 1])
  finally have "\<not> pow2 1024 \<le> r"
    by simp
  then have "round_double x = Finite r"
    using x by (simp add: round_double_def Let_def e_def [symmetric] m u_def [symmetric] r_def [symmetric])
  with err show ?thesis
    by blast
qed

lemma round_double_zero [simp]: "round_double 0 = Finite 0"
  by (simp add: round_double_def)

lemma round_double_near:
  assumes "1 / 2 ^ 40 \<le> x" and "x \<le> 2 ^ 40"
  shows "\<exists>r. round_double x = Finite r \<and> x * (1 - 1 / 2 ^ 53) \<le> r \<and> r \<le> x * (1 + 1 / 2 ^ 53)"
proof -
  have "pow2 (- 1022) \<le> pow2 (- int 40)"
    by (rule pow2_mono) simp
  then have lo: "pow2 (- 1022) \<le> x"
    using assms(1) unfolding pow2_neg_nat by linarith
  have "pow2 (int 41) \<le> pow2 1023"
    by (rule pow2_mono) simp
  moreover have "x < 2 ^ 41"
    using assms(2) by simp
  ultimately have hi: "x < pow2 1023"
    unfolding pow2_nat by linarith
  from round_double_error [OF lo hi] obtain r where
    r: "round_double x = Finite r" and e: "\<bar>r - x\<bar> \<le> x * pow2 (- int 53)"
    by auto
  from e have "x - x * (1 / 2 ^ 53) \<le> r" "r \<le> x + x * (1 / 2 ^ 53)"
    unfolding pow2_neg_nat by linarith+
  then have "x * (1 - 1 / 2 ^ 53) \<le> r \<and> r \<le> x * (1 + 1 / 2 ^ 53)"
    by (simp add: algebra_simps)
  with r show ?thesis
    by blast
qed

lemma to_number_exact:
  assumes "n < 2 ^ 53"
  shows "to_number n = Finite (real n)"
proof (cases "n = 0")
  case True
  then show ?thesis
    by (simp add: to_number_def)
next
  case False
  define x where "x = real n"
  have x: "1 \<le> x" "x < 2 ^ 53"
    using False assms real_le_pow2 [of "Suc n" 53] by (simp_all add: x_def)
  define e where "e = exponent x"
  have "0 < x"
    using x by simp
  from exponent_bounds [OF this] have eb: "pow2 e \<le> x" "x < pow2 (e + 1)"
    by (simp_all add: e_def)
  have "pow2 0 < pow2 (e + 1)"
    using x(1) eb(2) by (simp add: pow2_def [of 0])
  then have e0: "0 \<le> e"
    using pow2_less_D by fastforce
  have "pow2 e < pow2 (int 53)"
    using eb(1) x(2) unfolding pow2_nat by linarith
  then have e52: "e \<le> 52"
    using pow2_less_D by fastforce
  define d where "d = nat (52 - e)"
  have ed: "e - 52 = - int d"
    using e52 by (simp add: d_def)
  have m: "max e (- 1022) = e"
    using e0 by simp
  have u: "pow2 (e - 52) = 1 / 2 ^ d"
    unfolding ed by (rule pow2_neg_nat)
  have q: "x * 2 ^ d = of_int (int (n * 2 ^ d))"
    by (simp add: x_def)
  have r: "real_of_int (round_half_even (x * 2 ^ d)) / 2 ^ d = x"
    unfolding q round_half_even_int by (simp add: x_def)
  have "pow2 (int 53) \<le> pow2 1024"
    by (rule pow2_mono) simp
  then have "\<not> pow2 1024 \<le> x"
    using x(2) unfolding pow2_nat by linarith
  then show ?thesis
    using \<open>0 < x\<close>
    by (simp add: to_number_def x_def [symmetric] round_double_def Let_def e_def [symmetric] m u r)
qed

lemma percentage_near:
  assumes "0 < t" and "t < 2 ^ 32" and "s < 2 ^ 32"
  shows "\<exists>p. percentage s t = Finite p
           \<and> \<bar>p - real s / real t * 100\<bar> \<le> real s / real t * 100 / 2 ^ 51"
proof (cases "s = 0")
  case True
  then show ?thesis
    using assms by (simp add: percentage_def to_number_exact js_div_def js_mul_def)
next
  case False
  have t53: "t < 2 ^ 53" and s53: "s < 2 ^ 53"
    using assms(2,3) by (simp_all add: order_less_trans [OF _ power_strict_increasing [of 32 53 2]])
  define x where "x = real s / real t"
  have rs: "1 \<le> real s" "real s \<le> 2 ^ 32" and rt: "1 \<le> real t" "real t \<le> 2 ^ 32"
    using False assms real_le_pow2 [of s 32] real_le_pow2 [of t 32] by simp_all
  have "1 / 2 ^ 32 \<le> 1 / real t"
    using rt by (simp add: field_simps)
  also have "1 / real t \<le> x"
    using rs rt by (simp add: x_def field_simps)
  finally have x_lo: "1 / 2 ^ 32 \<le> x" .
  have "x \<le> real s"
    using rs rt by (simp add: x_def field_simps)
  then have x_hi: "x \<le> 2 ^ 32"
    using rs by linarith
  have "1 / 2 ^ 40 \<le> x" "x \<le> 2 ^ 40"
    using x_lo x_hi by simp_all
  from round_double_near [OF this] obtain q where
    q: "round_double x = Finite q" and qb: "x * (1 - 1 / 2 ^ 53) \<le> q" "q \<le> x * (1 + 1 / 2 ^ 53)"
    by blast
  have xp: "0 < x"
    using x_lo by (simp add: order_less_le_trans [of 0 "1 / 2 ^ 32"])
  have "x / 2 \<le> x * (1 - 1 / 2 ^ 53)" "x * (1 + 1 / 2 ^ 53) \<le> 2 * x"
    using xp by simp_all
  then have q2: "x / 2 \<le> q" "q \<le> 2 * x"
    using qb by linarith+
  have "1 / 2 ^ 40 \<le> q * 100" "q * 100 \<le> 2 ^ 40"
    using q2 x_lo x_hi by simp_all
  from round_double_near [OF this] obtain p where
    p: "round_double (q * 100) = Finite p"
    and pb: "q * 100 * (1 - 1 / 2 ^ 53) \<le> p" "p \<le> q * 100 * (1 + 1 / 2 ^ 53)"
    by blast
  have pct: "percentage s t = Finite p"
    using assms(1) by (simp add: percentage_def to_number_exact [OF s53] to_number_exact [OF t53]
        js_div_def js_mul_def x_def [symmetric] q p)
  have up: "p \<le> x * 100 * ((1 + 1 / 2 ^ 53) * (1 + 1 / 2 ^ 53))"
  proof -
    have "q * 100 * (1 + 1 / 2 ^ 53) \<le> (x * (1 + 1 / 2 ^ 53)) * 100 * (1 + 1 / 2 ^ 53)"
      using qb(2) by (simp add: mult_right_mono)
    with pb(2) show ?thesis
      by (simp add: mult_ac)
  qed
  have lo: "x * 100 * ((1 - 1 / 2 ^ 53) * (1 - 1 / 2 ^ 53)) \<le> p"
  proof -
    have "(x * (1 - 1 / 2 ^ 53)) * 100 * (1 - 1 / 2 ^ 53) \<le> q * 100 * (1 - 1 / 2 ^ 53)"
      using qb(1) by (simp add: mult_right_mono)
    with pb(1) show ?thesis
      by (simp add: mult_ac)
  qed
  have c1: "(1 + 1 / 2 ^ 53) * (1 + 1 / 2 ^ 53) \<le> (1 + 1 / 2 ^ 51 :: real)"
    by simp
  have c2: "(1 - 1 / 2 ^ 51 :: real) \<le> (1 - 1 / 2 ^ 53) * (1 - 1 / 2 ^ 53)"
    by simp
  have x100: "0 \<le> x * 100"
    using xp by simp
  have "p \<le> x * 100 * (1 + 1 / 2 ^ 51)"
    using up mult_left_mono [OF c1 x100] by linarith
  then have a: "p - x * 100 \<le> x * 100 / 2 ^ 51"
    by (simp add: algebra_simps)
  have "x * 100 * (1 - 1 / 2 ^ 51) \<le> p"
    using lo mult_left_mono [OF c2 x100] by linarith
  then have b: "- (p - x * 100) \<le> x * 100 / 2 ^ 51"
    by (simp add: algebra_simps)
  from a b have "\<bar>p - x * 100\<bar> \<le> x * 100 / 2 ^ 51"
    by (rule abs_leI)
  with pct show ?thesis
    unfolding x_def by blast
qed

lemma percentage_above:
  assumes "0 < t" and "t < n" and "n < 2 ^ 32"
  shows "\<exists>p. percentage n t = Finite p \<and> 100 < p"
proof -
  have t32: "t < 2 ^ 32"
    using assms(2,3) by simp
  from percentage_near [OF assms(1) t32 assms(3)] obtain p where
    p: "percentage n t = Finite p"
    and e: "\<bar>p - real n / real t * 100\<bar> \<le> real n / real t * 100 / 2 ^ 51"
    by blast
  define x where "x = real n / real t"
  have rt: "0 < real t" "real t \<le> 2 ^ 32"
    using assms(1) real_le_pow2 [of t 32] t32 by simp_all
  have "real t + 1 \<le> real n"
    using assms(2) by linarith
  then have "(real t + 1) / real t \<le> x"
    unfolding x_def using rt(1) by (intro divide_right_mono) simp_all
  moreover have "(real t + 1) / real t = 1 + 1 / real t"
    using rt(1) by (simp add: field_simps)
  ultimately have "1 + 1 / real t \<le> x"
    by simp
  moreover have "1 / 2 ^ 32 \<le> 1 / real t"
    using rt by (simp add: field_simps)
  ultimately have x: "1 + 1 / 2 ^ 32 \<le> x"
    by linarith
  from e have "- (p - x * 100) \<le> x * 100 / 2 ^ 51"
    unfolding x_def [symmetric] by linarith
  then have "x * 100 * (1 - 1 / 2 ^ 51) \<le> p"
    by (simp add: algebra_simps)
  moreover have "(1 + 1 / 2 ^ 32) * (100 * (1 - 1 / 2 ^ 51)) \<le> x * (100 * (1 - 1 / 2 ^ 51))"
    using x by (intro mult_right_mono) simp_all
  moreover have "(100::real) < (1 + 1 / 2 ^ 32) * (100 * (1 - 1 / 2 ^ 51))"
    by simp
  ultimately have "100 < p"
    by (simp add: mult.assoc)
  with p show ?thesis
    by blast
qed

lemma unguarded_percentage:
  assumes "s < 2 ^ 53"
  shows "js_mul (js_div (to_number s) (to_number 0)) (Finite 100) = (if s = 0 then NaN else Infinity)"
  using assms by (simp add: to_number_exact js_div_def js_mul_def)

lemma percentage_zero_total: "percentage s 0 = Finite 0"
  by (simp add: percentage_def)

lemmas double_eval =
  percentage_def js_mul_def js_div_def to_number_def round_double_def round_half_even_def
  exponent_def pow2_def bits.simps Let_def

subsection \<open>Scoring\<close>

lemma score_answer_score:
  "score (score_answer qs a st) = score st + (if answer_correct qs a then 1 else 0)"
  by (auto simp: score_answer_def answer_correct_def Let_def split: option.splits)

lemma fold_score_answer_score:
  "score (fold (score_answer qs) A st) = score st + spec_score qs A"
  by (induction A arbitrary: st) (simp_all add: spec_score_def score_answer_score)

lemma score_quiz_score: "score (score_quiz qs A) = spec_score qs A"
  by (simp add: score_quiz_def fold_score_answer_score)

lemma score_answer_out_of_range: "\<not> in_range qs a \<Longrightarrow> score_answer qs a st = st"
  by (auto simp: score_answer_def in_range_def at_index_def)

lemma fold_score_answer_filter:
  "fold (score_answer qs) (filter (in_range qs) A) st = fold (score_answer qs) A st"
  by (induction A arbitrary: st) (simp_all add: score_answer_out_of_range)

lemma score_quiz_filter: "score_quiz qs (filter (in_range qs) A) = score_quiz qs A"
  by (simp add: score_quiz_def fold_score_answer_filter)

lemma submit_quiz_accepted:
  assumes "userType sess = ascii ''student''"
    and "quiz_findById d quizId = Some Q"
    and "\<not> not_enrolled d sess Q"
    and "\<not> present (result_findOne d quizId (userId sess))"
  shows "submit_quiz e d sess quizId A t = score_and_save e d sess quizId Q A t"
  using assms by (simp add: submit_quiz_def)

lemma score_and_save_saved:
  assumes "save_error e = None"
  shows "score_and_save e d sess quizId Q A t =
     (Json_submitted
        (submitted e quizId Q (score_quiz (questions Q) A) t
           (case quiz_classId Q of None \<Rightarrow> None | Some c \<Rightarrow> class_findById d c)),
      result_create (newQuizResult e sess quizId Q (score_quiz (questions Q) A) t) d)"
  using assms by (simp add: score_and_save_def Let_def)

lemma spec_score_le: "spec_score qs A \<le> length A"
  by (simp add: spec_score_def)

text \<open>
  C1. A submission that passes the checks of the submit route (student session, quiz found,
  enrolled where the quiz has a class, no earlier result) and is saved is answered and
  recorded with a score equal to the number of submitted answers whose selected option is
  the correct answer of the question at their index. Answers with an index out of range
  are skipped: they change neither the score nor the recorded answers. The percentage is 0
  when totalQuestions is 0, and otherwise the number \<^verbatim>\<open>(score / totalQuestions) * 100\<close> of
  double arithmetic: the quotient rounded to a double, times 100, rounded again. For a
  quiz and an answer list of array size (below \<open>2 ^ 32\<close>) it is finite and differs from the
  exact value of score / totalQuestions * 100 by at most that value times \<open>2 ^ - 51\<close>.
\<close>

theorem score_correctness:
  assumes "userType sess = ascii ''student''"
    and "quiz_findById d quizId = Some Q"
    and "\<not> not_enrolled d sess Q"
    and "\<not> present (result_findOne d quizId (userId sess))"
    and "save_error e = None"
  shows "\<exists>r res. submit_quiz e d sess quizId A t = (Json_submitted r, result_create res d)
           \<and> s_score r = spec_score (questions Q) A \<and> r_score res = spec_score (questions Q) A
           \<and> spec_score (questions Q) A = spec_score (questions Q) (filter (in_range (questions Q)) A)
           \<and> r_answers res =
               detailedAnswers (score_quiz (questions Q) (filter (in_range (questions Q)) A))
           \<and> s_totalQuestions r = totalQuestions Q \<and> r_totalQuestions res = totalQuestions Q
           \<and> s_percentage r =
               (if totalQuestions Q = 0 then Finite 0
                else js_mul (js_div (to_number (s_score r)) (to_number (totalQuestions Q)))
                       (Finite 100))
           \<and> (0 < totalQuestions Q \<and> totalQuestions Q < 2 ^ 32 \<and> length A < 2 ^ 32 \<longrightarrow>
                (\<exists>p. s_percentage r = Finite p
                   \<and> \<bar>p - real (s_score r) / real (totalQuestions Q) * 100\<bar>
                       \<le> real (s_score r) / real (totalQuestions Q) * 100 / 2 ^ 51))
           \<and> r_percentage res = s_percentage r"
proof -
  let ?st = "score_quiz (questions Q) A"
  let ?r = "submitted e quizId Q ?st t
              (case quiz_classId Q of None \<Rightarrow> None | Some c \<Rightarrow> class_findById d c)"
  let ?res = "newQuizResult e sess quizId Q ?st t"
  have s: "submit_quiz e d sess quizId A t = (Json_submitted ?r, result_create ?res d)"
    using submit_quiz_accepted [OF assms(1-4)] score_and_save_saved [OF assms(5)] by simp
  have f: "spec_score (questions Q) A = spec_score (questions Q) (filter (in_range (questions Q)) A)"
    using score_quiz_filter [of "questions Q" A] score_quiz_score by metis
  have v: "s_score ?r = spec_score (questions Q) A" "r_score ?res = spec_score (questions Q) A"
    "r_answers ?res = detailedAnswers (score_quiz (questions Q) (filter (in_range (questions Q)) A))"
    "s_totalQuestions ?r = totalQuestions Q" "r_totalQuestions ?res = totalQuestions Q"
    "r_percentage ?res = s_percentage ?r"
    by (simp_all add: submitted_def newQuizResult_def score_quiz_score score_quiz_filter)
  have pc: "s_percentage ?r = percentage (s_score ?r) (totalQuestions Q)"
    by (simp add: submitted_def)
  have p: "s_percentage ?r =
      (if totalQuestions Q = 0 then Finite 0
       else js_mul (js_div (to_number (s_score ?r)) (to_number (totalQuestions Q))) (Finite 100))"
    unfolding pc by (simp add: percentage_def)
  have n: "\<exists>p. s_percentage ?r = Finite p
             \<and> \<bar>p - real (s_score ?r) / real (totalQuestions Q) * 100\<bar>
                 \<le> real (s_score ?r) / real (totalQuestions Q) * 100 / 2 ^ 51"
    if b: "0 < totalQuestions Q \<and> totalQuestions Q < 2 ^ 32 \<and> length A < 2 ^ 32"
  proof -
    have "s_score ?r \<le> length A"
      unfolding v(1) by (rule spec_score_le)
    then have "s_score ?r < 2 ^ 32"
      using b by linarith
    with b show ?thesis
      unfolding pc by (intro percentage_near) simp_all
  qed
  have n': "0 < totalQuestions Q \<and> totalQuestions Q < 2 ^ 32 \<and> length A < 2 ^ 32 \<longrightarrow>
     (\<exists>p. s_percentage ?r = Finite p
         \<and> \<bar>p - real (s_score ?r) / real (totalQuestions Q) * 100\<bar>
             \<le> real (s_score ?r) / real (totalQuestions Q) * 100 / 2 ^ 51)"
    using n by (rule impI)
  show ?thesis
    apply (rule exI [of _ ?r], rule exI [of _ ?res])
    apply (intro conjI)
    apply (rule s, rule v(1), rule v(2), rule f, rule v(3), rule v(4), rule v(5), rule p, rule n', rule v(6))
    done
qed

theorem score_correctness_witness:
  "\<exists>r res. submit_quiz an_env installation (student 20) 5
              [answer 0 ''B'', answer 1 ''A'', answer 7 ''A'', answer (- 1) ''B''] 30 =
              (Json_submitted r, result_create res installation)
     \<and> s_score r = 1 \<and> r_score res = 1 \<and> s_totalQuestions r = 2
     \<and> s_percentage r = Finite 50 \<and> r_percentage res = Finite 50"
proof -
  let ?A = "[answer 0 ''B'', answer 1 ''A'', answer 7 ''A'', answer (- 1) ''B'']"
  have h1: "userType (student 20) = ascii ''student''"
    by (simp add: student_def)
  have h2: "quiz_findById installation 5 = Some stored_quiz"
    by (simp add: find_defs installation_def stored_quiz_def)
  have h3: "\<not> not_enrolled installation (student 20) stored_quiz"
    by (simp add: find_defs run_defs)
  have h4: "\<not> present (result_findOne installation 5 (userId (student 20)))"
    by (simp add: find_defs run_defs)
  have h5: "save_error an_env = None"
    by (simp add: an_env_def)
  have sp: "spec_score (questions stored_quiz) ?A = 1"
    by (simp add: spec_score_def answer_correct_def at_index_def run_defs)
  have tq: "totalQuestions stored_quiz = 2"
    by (simp add: stored_quiz_def)
  have half: "js_mul (js_div (to_number 1) (to_number 2)) (Finite 100) = Finite 50"
    by (simp add: double_eval)
  from score_correctness [OF h1 h2 h3 h4 h5, of ?A 30] obtain r res where
    "submit_quiz an_env installation (student 20) 5 ?A 30 =
       (Json_submitted r, result_create res installation)"
    "s_score r = spec_score (questions stored_quiz) ?A"
    "r_score res = spec_score (questions stored_quiz) ?A"
    "s_totalQuestions r = totalQuestions stored_quiz"
    "s_percentage r =
       (if totalQuestions stored_quiz = 0 then Finite 0
        else js_mul (js_div (to_number (s_score r)) (to_number (totalQuestions stored_quiz)))
               (Finite 100))"
    "r_percentage res = s_percentage r"
    by blast
  then show ?thesis
    unfolding sp tq using half by (intro exI [of _ r] exI [of _ res]) simp
qed

text \<open>
  The percentage is not always the exact value: eleven right answers to a quiz of twenty
  questions are answered with 55.00000000000001 (the double \<open>55 + 2 ^ - 47\<close>), because the
  quotient 11 / 20 is rounded before it is multiplied by 100.
\<close>

theorem percentage_rounded:
  "map_option s_score
     (submitted_of (fst (submit_quiz an_env installation_20 (student 20) 6
        [answer 0 ''B'', answer 1 ''B'', answer 2 ''B'', answer 3 ''B'', answer 4 ''B'',
         answer 5 ''B'', answer 6 ''B'', answer 7 ''B'', answer 8 ''B'', answer 9 ''B'',
         answer 10 ''B''] 30))) = Some 11
   \<and> map_option s_totalQuestions
     (submitted_of (fst (submit_quiz an_env installation_20 (student 20) 6
        [answer 0 ''B'', answer 1 ''B'', answer 2 ''B'', answer 3 ''B'', answer 4 ''B'',
         answer 5 ''B'', answer 6 ''B'', answer 7 ''B'', answer 8 ''B'', answer 9 ''B'',
         answer 10 ''B''] 30))) = Some 20
   \<and> map_option s_percentage
     (submitted_of (fst (submit_quiz an_env installation_20 (student 20) 6
        [answer 0 ''B'', answer 1 ''B'', answer 2 ''B'', answer 3 ''B'', answer 4 ''B'',
         answer 5 ''B'', answer 6 ''B'', answer 7 ''B'', answer 8 ''B'', answer 9 ''B'',
         answer 10 ''B''] 30))) = Some (Finite (55 + 1 / 2 ^ 47))
   \<and> Finite (55 + 1 / 2 ^ 47) \<noteq> Finite (real 11 / real 20 * 100)"
proof -
  let ?A = "[answer 0 ''B'', answer 1 ''B'', answer 2 ''B'', answer 3 ''B'', answer 4 ''B'',
         answer 5 ''B'', answer 6 ''B'', answer 7 ''B'', answer 8 ''B'', answer 9 ''B'',
         answer 10 ''B'']"
  have h1: "userType (student 20) = ascii ''student''"
    by (simp add: student_def)
  have h2: "quiz_findById installation_20 6 = Some twenty_quiz"
    by (simp add: find_defs installation_20_def installation_def twenty_quiz_def)
  have h3: "\<not> not_enrolled installation_20 (student 20) twenty_quiz"
    by (simp add: find_defs run_defs installation_20_def twenty_quiz_def)
  have h4: "\<not> present (result_findOne installation_20 6 (userId (student 20)))"
    by (simp add: find_defs run_defs installation_20_def)
  have h5: "save_error an_env = None"
    by (simp add: an_env_def)
  have sc: "score (score_quiz (questions twenty_quiz) ?A) = 11"
    by (simp add: score_quiz_score spec_score_def answer_correct_def at_index_def
        twenty_quiz_def stored_question_0_def answer_def ascii_def)
  have pc: "percentage 11 20 = Finite (55 + 1 / 2 ^ 47)"
    by (simp add: double_eval)
  have "fst (submit_quiz an_env installation_20 (student 20) 6 ?A 30) =
      Json_submitted (submitted an_env 6 twenty_quiz (score_quiz (questions twenty_quiz) ?A) 30
        (case quiz_classId twenty_quiz of None \<Rightarrow> None
         | Some c \<Rightarrow> class_findById installation_20 c))"
    unfolding submit_quiz_accepted [OF h1 h2 h3 h4] score_and_save_saved [OF h5] by simp
  then show ?thesis
    using sc pc by (simp add: submitted_of_def submitted_def twenty_quiz_def)
qed

text \<open>
  C9. The scoring loop counts submitted answers with multiplicity. An in-range answer that
  carries the correct option adds one to the score each time it occurs: two more copies
  add two, and \<open>n\<close> copies alone score \<open>n\<close>. With two or more copies the score exceeds the
  number of distinct questions answered, and with more copies than totalQuestions (in an
  answer list of array size, below \<open>2 ^ 32\<close>) the percentage is a finite number above 100.
\<close>

theorem duplicates_counted:
  assumes "at_index qs (questionIndex a) = Some q" and "selectedOption a = correct_answer q"
  shows "score (score_quiz qs (A @ [a, a])) = score (score_quiz qs A) + 2
       \<and> score (score_quiz qs (replicate n a)) = n
       \<and> (1 < n \<longrightarrow>
            card (questionIndex ` set (replicate n a)) < score (score_quiz qs (replicate n a)))
       \<and> (0 < totalQ \<and> totalQ < n \<and> n < 2 ^ 32 \<longrightarrow>
            (\<exists>p. percentage (score (score_quiz qs (replicate n a))) totalQ = Finite p
                \<and> 100 < p))"
proof -
  have c: "answer_correct qs a"
    using assms by (simp add: answer_correct_def)
  have 1: "score (score_quiz qs (A @ [a, a])) = score (score_quiz qs A) + 2"
    using c by (simp add: score_quiz_score spec_score_def)
  have 2: "score (score_quiz qs (replicate n a)) = n" for n
    using c by (simp add: score_quiz_score spec_score_def)
  have 3: "card (questionIndex ` set (replicate n a)) < n" if "1 < n"
    using that by simp
  have 4: "0 < totalQ \<and> totalQ < n \<and> n < 2 ^ 32 \<longrightarrow>
     (\<exists>p. percentage n totalQ = Finite p \<and> 100 < p)"
    using percentage_above [of totalQ n] by blast
  show ?thesis
    unfolding 2 using 1 3 4 by (intro conjI) simp_all
qed

theorem duplicates_counted_witness:
  "score (score_quiz (questions stored_quiz) (replicate 3 (answer 0 ''B''))) = 3
   \<and> card (questionIndex ` set (replicate 3 (answer 0 ''B''))) = 1
   \<and> percentage (score (score_quiz (questions stored_quiz) (replicate 3 (answer 0 ''B''))))
        (totalQuestions stored_quiz) = Finite 150"
proof -
  have h1: "at_index (questions stored_quiz) (questionIndex (answer 0 ''B'')) = Some stored_question_0"
    by (simp add: at_index_def stored_quiz_def answer_def)
  have h2: "selectedOption (answer 0 ''B'') = correct_answer stored_question_0"
    by (simp add: answer_def stored_question_0_def)
  have p: "percentage 3 2 = Finite 150"
    by (simp add: double_eval)
  have "score (score_quiz (questions stored_quiz) (replicate 3 (answer 0 ''B''))) = 3"
    using duplicates_counted [OF h1 h2, of "[]" 3 2] by simp
  then show ?thesis
    using p by (simp add: stored_quiz_def)
qed

subsection \<open>Generation\<close>

lemma find_update_first:
  assumes "\<And>x. P x \<Longrightarrow> P (f x)"
  shows "find P (update_first P f xs) = map_option f (find P xs)"
  using assms by (induction xs) auto

lemma find_None_filter: "find P xs = None \<Longrightarrow> filter P xs = []"
  by (induction xs) (auto split: if_splits)

lemma lecture_findById_update:
  assumes "\<And>l. lecture_id (f l) = lecture_id l"
  shows "lecture_findById (lecture_findByIdAndUpdate lid f d) lid =
           map_option f (lecture_findById d lid)"
  unfolding lecture_findById_def lecture_findByIdAndUpdate_def
  using assms by (simp add: find_update_first)

lemma quizCollection_update [simp]:
  "quizCollection (lecture_findByIdAndUpdate lid f d) = quizCollection d"
  by (simp add: lecture_findByIdAndUpdate_def)

lemma generate_quiz_existing:
  assumes "present (quiz_findOne_lectureId d lid)"
  shows "snd (generate_quiz e ai d sess lid) = d"
  using assms by (simp add: generate_quiz_def split: option.splits)

lemma generate_quiz_conflict:
  assumes "present (quiz_findOne_lectureId d lid)"
    and "lecture_findById d lid = Some lec" and "may_generate sess lec"
  shows "fst (generate_quiz e ai d sess lid) =
           Json_failure 400 (ascii ''Quiz already generated for this lecture'')"
  using assms by (simp add: generate_quiz_def may_generate_def)

lemma generate_quiz_generated:
  assumes "is_generated (fst (generate_quiz e ai d sess lid))"
  shows "\<exists>qs qs' lec. ai = Api_text (Question_array qs) \<and> validate_from 0 qs = Inr qs'
     \<and> \<not> present (quiz_findOne_lectureId d lid)
     \<and> quizCollection (snd (generate_quiz e ai d sess lid)) =
         quizCollection d @ [newQuiz e sess lid lec qs']"
  using assms
  by (auto simp: generate_quiz_def generate_from_model_def parse_and_validate_def Let_def
      is_generated_def lecture_findByIdAndUpdate_def quiz_create_def
      split: option.splits if_splits ai_outcome.splits sum.splits parsed.splits)

lemma generate_quiz_not_generated:
  assumes "\<not> is_generated (fst (generate_quiz e ai d sess lid))"
  shows "quizCollection (snd (generate_quiz e ai d sess lid)) = quizCollection d"
  using assms
  by (auto simp: generate_quiz_def generate_from_model_def Let_def is_generated_def
      split: option.splits if_splits ai_outcome.splits sum.splits)

lemma generated_quiz_present:
  assumes "is_generated (fst (generate_quiz e ai d sess lid))"
  shows "present (quiz_findOne_lectureId (snd (generate_quiz e ai d sess lid)) lid)"
proof -
  from generate_quiz_generated [OF assms] obtain lec qs' where
    "quizCollection (snd (generate_quiz e ai d sess lid)) =
       quizCollection d @ [newQuiz e sess lid lec qs']"
    by blast
  moreover have "lectureId (newQuiz e sess lid lec qs') = lid"
    by (simp add: newQuiz_def)
  ultimately show ?thesis
    by (auto simp: quiz_findOne_lectureId_def present_def find_None_iff split: option.splits)
qed

lemma generate_quiz_invariant:
  assumes "length (quizzes_of d l) \<le> 1"
  shows "length (quizzes_of (snd (generate_quiz e ai d sess lid)) l) \<le> 1"
proof (cases "is_generated (fst (generate_quiz e ai d sess lid))")
  case True
  from generate_quiz_generated [OF True] obtain lec qs' where
    n: "\<not> present (quiz_findOne_lectureId d lid)"
    and c: "quizCollection (snd (generate_quiz e ai d sess lid)) =
       quizCollection d @ [newQuiz e sess lid lec qs']"
    by blast
  have i: "lectureId (newQuiz e sess lid lec qs') = lid"
    by (simp add: newQuiz_def)
  from n have "filter (\<lambda>q. lectureId q = lid) (quizCollection d) = []"
    by (auto simp: quiz_findOne_lectureId_def present_def find_None_filter split: option.splits)
  then show ?thesis
    using assms c i by (auto simp: quizzes_of_def)
next
  case False
  then show ?thesis
    using assms by (simp add: quizzes_of_def generate_quiz_not_generated)
qed

lemma lecture_findById_quiz_create [simp]:
  "lecture_findById (quiz_create q d) lid = lecture_findById d lid"
  by (simp add: lecture_findById_def quiz_create_def)

lemma generate_quiz_generated_state:
  assumes "is_generated (fst (generate_quiz e ai d sess lid))"
  shows "\<exists>lec qs'. lecture_findById d lid = Some lec \<and> may_generate sess lec
     \<and> snd (generate_quiz e ai d sess lid) =
         lecture_findByIdAndUpdate lid
           (\<lambda>l. l\<lparr>quizGenerated := True, processingStatus := Completed,
                   quizzesCount := 1, lastProcessed := Some (now e)\<rparr>)
           (quiz_create (newQuiz e sess lid lec qs')
              (lecture_findByIdAndUpdate lid
                 (\<lambda>l. l\<lparr>processingStatus := Processing, lastProcessed := Some (now e)\<rparr>) d))"
  using assms
  by (auto simp: generate_quiz_def generate_from_model_def Let_def is_generated_def may_generate_def
      split: option.splits if_splits ai_outcome.splits sum.splits)

lemma generate_quiz_generated_lecture:
  assumes "is_generated (fst (generate_quiz e ai d sess lid))"
  shows "\<exists>lec'. lecture_findById (snd (generate_quiz e ai d sess lid)) lid = Some lec'
     \<and> may_generate sess lec'"
proof -
  from generate_quiz_generated_state [OF assms] obtain lec qs' where
    l: "lecture_findById d lid = Some lec" and m: "may_generate sess lec"
    and s: "snd (generate_quiz e ai d sess lid) =
         lecture_findByIdAndUpdate lid
           (\<lambda>l. l\<lparr>quizGenerated := True, processingStatus := Completed,
                   quizzesCount := 1, lastProcessed := Some (now e)\<rparr>)
           (quiz_create (newQuiz e sess lid lec qs')
              (lecture_findByIdAndUpdate lid
                 (\<lambda>l. l\<lparr>processingStatus := Processing, lastProcessed := Some (now e)\<rparr>) d))"
    by blast
  show ?thesis
    unfolding s using l m by (simp add: lecture_findById_update may_generate_def)
qed

lemma generate_twice:
  assumes "is_generated (fst (generate_quiz e ai d sess lid))"
  shows "generate_quiz e' ai' (snd (generate_quiz e ai d sess lid)) sess lid =
     (Json_failure 400 (ascii ''Quiz already generated for this lecture''),
      snd (generate_quiz e ai d sess lid))"
proof -
  from generate_quiz_generated_lecture [OF assms] obtain lec' where
    "lecture_findById (snd (generate_quiz e ai d sess lid)) lid = Some lec'"
    "may_generate sess lec'"
    by blast
  then show ?thesis
    using generated_quiz_present [OF assms]
    by (simp add: generate_quiz_def may_generate_def)
qed

text \<open>
  C3. When a quiz already exists for a lecture, a generation request for that lecture
  changes nothing in the database (no second quiz, no change of the lecture's processing
  status), and, when the request reaches the check (the lecture exists and the ownership
  check lets the requester through), it is answered with the conflict "Quiz already
  generated for this lecture". A generation that succeeds leaves a quiz for the lecture,
  so that a second request of the same session for the lecture, made on the state the
  first one leaves, is answered with the conflict and changes nothing. A generation
  request never takes the number of quizzes of any lecture above one.
\<close>

theorem at_most_one_quiz:
  "(present (quiz_findOne_lectureId d lid) \<longrightarrow>
      snd (generate_quiz e ai d sess lid) = d
      \<and> (\<forall>lec. lecture_findById d lid = Some lec \<and> may_generate sess lec \<longrightarrow>
            fst (generate_quiz e ai d sess lid) =
              Json_failure 400 (ascii ''Quiz already generated for this lecture'')))
   \<and> (is_generated (fst (generate_quiz e ai d sess lid)) \<longrightarrow>
        present (quiz_findOne_lectureId (snd (generate_quiz e ai d sess lid)) lid)
        \<and> generate_quiz e' ai' (snd (generate_quiz e ai d sess lid)) sess lid =
            (Json_failure 400 (ascii ''Quiz already generated for this lecture''),
             snd (generate_quiz e ai d sess lid)))
   \<and> (length (quizzes_of d l) \<le> 1 \<longrightarrow>
        length (quizzes_of (snd (generate_quiz e ai d sess lid)) l) \<le> 1)"
proof (intro conjI impI allI)
  assume "present (quiz_findOne_lectureId d lid)"
  then show "snd (generate_quiz e ai d sess lid) = d"
    by (rule generate_quiz_existing)
next
  fix lec
  assume "present (quiz_findOne_lectureId d lid)"
    and "lecture_findById d lid = Some lec \<and> may_generate sess lec"
  then show "fst (generate_quiz e ai d sess lid) =
      Json_failure 400 (ascii ''Quiz already generated for this lecture'')"
    using generate_quiz_conflict by blast
next
  assume "is_generated (fst (generate_quiz e ai d sess lid))"
  then show "present (quiz_findOne_lectureId (snd (generate_quiz e ai d sess lid)) lid)"
    by (rule generated_quiz_present)
next
  assume "is_generated (fst (generate_quiz e ai d sess lid))"
  then show "generate_quiz e' ai' (snd (generate_quiz e ai d sess lid)) sess lid =
      (Json_failure 400 (ascii ''Quiz already generated for this lecture''),
       snd (generate_quiz e ai d sess lid))"
    by (rule generate_twice)
next
  assume "length (quizzes_of d l) \<le> 1"
  then show "length (quizzes_of (snd (generate_quiz e ai d sess lid)) l) \<le> 1"
    by (rule generate_quiz_invariant)
qed

theorem at_most_one_quiz_witness:
  "generate_quiz an_env (Api_text (Question_array [model_question])) installation teacher_10 3 =
     (Json_failure 400 (ascii ''Quiz already generated for this lecture''), installation)
   \<and> is_generated
        (fst (generate_quiz an_env (Api_text (Question_array [model_question])) installation teacher_10 1))
   \<and> generate_quiz an_env (Api_text (Question_array [model_question]))
        (snd (generate_quiz an_env (Api_text (Question_array [model_question])) installation teacher_10 1))
        teacher_10 1 =
      (Json_failure 400 (ascii ''Quiz already generated for this lecture''),
       snd (generate_quiz an_env (Api_text (Question_array [model_question])) installation teacher_10 1))
   \<and> length (quizzes_of
        (snd (generate_quiz an_env (Api_text (Question_array [model_question])) installation teacher_10 1)) 1) \<le> 1"
proof -
  let ?ai = "Api_text (Question_array [model_question])"
  let ?d1 = "snd (generate_quiz an_env ?ai installation teacher_10 1)"
  have a1: "present (quiz_findOne_lectureId installation 3)"
    by (simp add: find_defs run_defs)
  have a2: "lecture_findById installation 3 = Some (a_lecture 3 (Some (replicate 60 0x62)) Completed True)
      \<and> may_generate teacher_10 (a_lecture 3 (Some (replicate 60 0x62)) Completed True)"
    by (simp add: find_defs run_defs may_generate_def)
  have b1: "is_generated (fst (generate_quiz an_env ?ai installation teacher_10 1))"
    by (simp add: gen_defs find_defs run_defs)
  have b3: "length (quizzes_of installation 1) \<le> 1"
    by (simp add: quizzes_of_def run_defs)
  note existing = at_most_one_quiz [of installation 3 an_env ?ai teacher_10 an_env ?ai 1]
  note twice = at_most_one_quiz [of installation 1 an_env ?ai teacher_10 an_env ?ai 1]
  have c1: "generate_quiz an_env ?ai installation teacher_10 3 =
     (Json_failure 400 (ascii ''Quiz already generated for this lecture''), installation)"
    using existing a1 a2 by (simp add: prod_eq_iff)
  have c3: "generate_quiz an_env ?ai ?d1 teacher_10 1 =
     (Json_failure 400 (ascii ''Quiz already generated for this lecture''), ?d1)"
    using twice b1 by blast
  have c4: "length (quizzes_of ?d1 1) \<le> 1"
    using twice b3 by blast
  show ?thesis
    using c1 b1 c3 c4 by blast
qed

lemma dropWhile_hd: "xs \<noteq> [] \<Longrightarrow> \<not> P (hd xs) \<Longrightarrow> dropWhile P xs = xs"
  by (cases xs) auto

lemma trim_keeps:
  assumes "s \<noteq> []" "\<not> is_whitespace (hd s)" "\<not> is_whitespace (last s)"
  shows "trim s = s"
proof -
  have 1: "dropWhile is_whitespace s = s"
    using assms(1,2) by (rule dropWhile_hd)
  have "rev s \<noteq> []" "\<not> is_whitespace (hd (rev s))"
    using assms(1,3) by (simp_all add: hd_rev)
  then have 2: "dropWhile is_whitespace (rev s) = rev s"
    by (rule dropWhile_hd)
  show ?thesis
    by (simp add: trim_def 1 2)
qed

lemma fallback_not_blank: "\<not> blank (Some (fallback_explanation ca))"
proof -
  let ?s = "fallback_explanation ca"
  have n: "?s \<noteq> []"
    by (simp add: fallback_explanation_def ascii_def)
  have h: "hd ?s = 0x54"
    by (simp add: fallback_explanation_def ascii_def)
  have l: "last ?s = 0x2E"
    by (simp add: fallback_explanation_def ascii_def)
  have "trim ?s = ?s"
    by (rule trim_keeps [OF n]) (simp_all add: h l is_whitespace_def)
  then show ?thesis
    using n by (simp add: blank_def)
qed

lemma includes_infix: "str_includes (p @ sub @ t) sub"
proof -
  have "take (length sub) (drop (length p) (p @ sub @ t)) = sub"
    by simp
  moreover have "length p \<in> set [0..<Suc (length (p @ sub @ t))]"
    by simp
  ultimately show ?thesis
    unfolding str_includes_def list_ex_iff by blast
qed

lemma fallback_names_correct_label: "str_includes (fallback_explanation ca) ca"
  unfolding fallback_explanation_def by (rule includes_infix)

lemma map_of_set_prop: "map_of (set_prop ex k v) = (map_of ex)(k \<mapsto> v)"
  by (simp add: set_prop_def update_conv')

lemma map_of_check_option:
  "map_of (check_option ca l ex) k =
     (if k = l \<and> l \<noteq> ca \<and> blank (map_of ex l) then Some (fallback_explanation ca)
      else map_of ex k)"
  by (simp add: check_option_def map_of_set_prop)

lemma map_of_fold_check_option:
  "map_of (fold (check_option ca) ls ex) k =
     (if k \<in> set ls \<and> k \<noteq> ca \<and> blank (map_of ex k) then Some (fallback_explanation ca)
      else map_of ex k)"
proof (induction ls arbitrary: ex)
  case Nil
  show ?case by simp
next
  case (Cons l ls)
  show ?case
    using fallback_not_blank [of ca]
    by (auto simp: Cons.IH map_of_check_option)
qed

lemma validate_question_Inr:
  assumes "validate_question index q = Inr q'"
  shows "\<exists>ca ex ex'. correct_answer q = Some ca \<and> ca \<in> set labels \<and> explanations q = Some ex
           \<and> q' = q\<lparr>explanations := Some ex'\<rparr>
           \<and> (\<forall>l \<in> set labels. map_of ex' l = expected_explanation ca ex l)"
proof -
  from assms obtain ca ex where
    c: "correct_answer q = Some ca" "explanations q = Some ex" "ca \<in> set labels"
    and q': "q' = q\<lparr>explanations := Some (set_prop (fold (check_option ca) labels ex) ca [])\<rparr>"
    by (auto simp: validate_question_def split: if_splits option.splits)
  have "\<forall>l \<in> set labels.
          map_of (set_prop (fold (check_option ca) labels ex) ca []) l = expected_explanation ca ex l"
    by (simp add: map_of_set_prop map_of_fold_check_option expected_explanation_def)
  with c q' show ?thesis
    by blast
qed

lemma expected_explanation_complete:
  assumes "ca \<in> set labels" and "\<forall>l \<in> set labels. map_of ex' l = expected_explanation ca ex l"
    and "correct_answer q = Some ca" and "explanations q = Some ex'"
  shows "explanations_complete q"
proof -
  have "truthy (expected_explanation ca ex l)" if "l \<noteq> ca" for l
    using that fallback_not_blank [of ca]
    by (auto simp: expected_explanation_def truthy_def blank_def split: option.splits)
  moreover have "expected_explanation ca ex ca = Some []"
    by (simp add: expected_explanation_def)
  ultimately show ?thesis
    using assms by (auto simp: explanations_complete_def list_all_iff)
qed

lemma validate_from_Inr:
  assumes "validate_from index qs = Inr qs'"
  shows "length qs' = length qs
       \<and> (\<forall>i < length qs. validate_question (index + i) (qs ! i) = Inr (qs' ! i))"
  using assms
proof (induction qs arbitrary: index qs')
  case Nil
  then show ?case by simp
next
  case (Cons q qs)
  from Cons.prems obtain q' qs'' where
    1: "validate_question index q = Inr q'" and 2: "validate_from (Suc index) qs = Inr qs''"
    and 3: "qs' = q' # qs''"
    by (auto split: sum.splits)
  from Cons.IH [OF 2] have ih: "length qs'' = length qs"
    "\<forall>i < length qs. validate_question (Suc index + i) (qs ! i) = Inr (qs'' ! i)"
    by auto
  show ?case
  proof (intro conjI allI impI)
    show "length qs' = length (q # qs)"
      using 3 ih by simp
    fix i
    assume "i < length (q # qs)"
    then show "validate_question (index + i) ((q # qs) ! i) = Inr (qs' ! i)"
      using 1 3 ih by (cases i) auto
  qed
qed

text \<open>
  C4. When generation succeeds, the model's answer was an array of questions and exactly
  one quiz is added to the quiz collection. Each of its questions is the model's question
  with the explanations replaced: for each label A to D, the entry for the correct label is
  the empty string, and the entry for another label is the model's entry, or the
  synthesized fallback naming the correct label where the model's entry is missing or
  blank. Hence every stored question is explanation-complete: every wrong label has a
  non-empty explanation and the correct label's explanation is exactly the empty string.
  The fallback text contains the correct label.
\<close>

theorem explanation_completeness:
  assumes "is_generated (fst (generate_quiz e ai d sess lid))"
  shows "(\<exists>qs qz. ai = Api_text (Question_array qs)
     \<and> quizCollection (snd (generate_quiz e ai d sess lid)) = quizCollection d @ [qz]
     \<and> length (questions qz) = length qs
     \<and> (\<forall>i < length qs. \<exists>ca ex ex'.
           correct_answer (qs ! i) = Some ca \<and> explanations (qs ! i) = Some ex
           \<and> questions qz ! i = (qs ! i)\<lparr>explanations := Some ex'\<rparr>
           \<and> (\<forall>l \<in> set labels. map_of ex' l = expected_explanation ca ex l))
     \<and> (\<forall>q \<in> set (questions qz). explanations_complete q))
     \<and> (\<forall>ca. str_includes (fallback_explanation ca) ca)"
proof -
  from generate_quiz_generated [OF assms] obtain qs qs' lec where
    ai: "ai = Api_text (Question_array qs)" and v: "validate_from 0 qs = Inr qs'"
    and c: "quizCollection (snd (generate_quiz e ai d sess lid)) =
              quizCollection d @ [newQuiz e sess lid lec qs']"
    by blast
  let ?qz = "newQuiz e sess lid lec qs'"
  have qq: "questions ?qz = qs'"
    by (simp add: newQuiz_def)
  from validate_from_Inr [OF v] have len: "length qs' = length qs"
    and each: "\<And>i. i < length qs \<Longrightarrow> validate_question i (qs ! i) = Inr (qs' ! i)"
    by auto
  have pt: "\<exists>ca ex ex'. correct_answer (qs ! i) = Some ca \<and> ca \<in> set labels
           \<and> explanations (qs ! i) = Some ex
           \<and> qs' ! i = (qs ! i)\<lparr>explanations := Some ex'\<rparr>
           \<and> (\<forall>l \<in> set labels. map_of ex' l = expected_explanation ca ex l)"
    if "i < length qs" for i
    using validate_question_Inr [OF each [OF that]] .
  have comp: "explanations_complete q" if "q \<in> set qs'" for q
  proof -
    from that len obtain i where i: "i < length qs" "q = qs' ! i"
      by (metis in_set_conv_nth)
    from pt [OF i(1)] obtain ca ex ex' where
      "correct_answer (qs ! i) = Some ca" "ca \<in> set labels"
      "qs' ! i = (qs ! i)\<lparr>explanations := Some ex'\<rparr>"
      "\<forall>l \<in> set labels. map_of ex' l = expected_explanation ca ex l"
      by blast
    then show ?thesis
      using i(2) by (intro expected_explanation_complete [of ca ex' ex]) simp_all
  qed
  have "\<exists>qs qz. ai = Api_text (Question_array qs)
     \<and> quizCollection (snd (generate_quiz e ai d sess lid)) = quizCollection d @ [qz]
     \<and> length (questions qz) = length qs
     \<and> (\<forall>i < length qs. \<exists>ca ex ex'.
           correct_answer (qs ! i) = Some ca \<and> explanations (qs ! i) = Some ex
           \<and> questions qz ! i = (qs ! i)\<lparr>explanations := Some ex'\<rparr>
           \<and> (\<forall>l \<in> set labels. map_of ex' l = expected_explanation ca ex l))
     \<and> (\<forall>q \<in> set (questions qz). explanations_complete q)"
    apply (rule exI [of _ qs], rule exI [of _ ?qz])
    using ai c len pt comp unfolding qq by blast
  then show ?thesis
    by (intro conjI allI fallback_names_correct_label)
qed

theorem explanation_completeness_witness:
  "is_generated
     (fst (generate_quiz an_env (Api_text (Question_array [model_question])) installation teacher_10 1))
   \<and> (\<exists>qz. quizCollection
              (snd (generate_quiz an_env (Api_text (Question_array [model_question]))
                      installation teacher_10 1)) = [stored_quiz, qz]
          \<and> list_all explanations_complete (questions qz)
          \<and> map explanations (questions qz) =
              [Some [(ascii ''A'', ascii ''low''), (ascii ''B'', []),
                     (ascii ''C'', fallback_explanation (ascii ''B'')),
                     (ascii ''D'', fallback_explanation (ascii ''B''))]])"
proof -
  let ?ai = "Api_text (Question_array [model_question])"
  let ?d1 = "snd (generate_quiz an_env ?ai installation teacher_10 1)"
  have g: "is_generated (fst (generate_quiz an_env ?ai installation teacher_10 1))"
    by (simp add: gen_defs find_defs run_defs)
  from explanation_completeness [OF g, THEN conjunct1] obtain qz where
    c: "quizCollection ?d1 = quizCollection installation @ [qz]"
    and e: "\<forall>q \<in> set (questions qz). explanations_complete q"
    by blast
  have "map (map explanations \<circ> questions) (quizCollection ?d1) =
          [map explanations (questions stored_quiz),
           [Some [(ascii ''A'', ascii ''low''), (ascii ''B'', []),
                  (ascii ''C'', fallback_explanation (ascii ''B'')),
                  (ascii ''D'', fallback_explanation (ascii ''B''))]]]"
    by (simp add: gen_defs find_defs run_defs)
  with c have m: "map explanations (questions qz) =
          [Some [(ascii ''A'', ascii ''low''), (ascii ''B'', []),
                 (ascii ''C'', fallback_explanation (ascii ''B'')),
                 (ascii ''D'', fallback_explanation (ascii ''B''))]]"
    by simp
  have i: "quizCollection installation = [stored_quiz]"
    by (simp add: installation_def)
  show ?thesis
    using g c e m unfolding i by (auto simp: list_all_iff)
qed

lemma too_short_iff: "too_short v = (v = None \<or> (\<exists>t. v = Some t \<and> length t < 50))"
  by (auto simp: too_short_def split: option.splits)

text \<open>
  C7. For a lecture whose extracted text is missing or shorter than 50 (code units), a
  generation request that reaches the length check (the lecture exists, the ownership check
  lets the requester through, the lecture has no quiz yet) is answered with the validation
  error "Extracted text is too short or missing for quiz generation." (status 400),
  whatever the generative model would have answered; the lecture is left with
  processingStatus failed and the error string "Text too short for quiz generation"; and the
  quiz collection is unchanged.
\<close>

theorem short_text_fails:
  assumes "lecture_findById d lid = Some lec" and "may_generate sess lec"
    and "\<not> present (quiz_findOne_lectureId d lid)"
    and "extractedText lec = None \<or> (\<exists>t. extractedText lec = Some t \<and> length t < 50)"
  shows "fst (generate_quiz e ai d sess lid) =
           Json_failure 400 (ascii ''Extracted text is too short or missing for quiz generation.'')
       \<and> quizCollection (snd (generate_quiz e ai d sess lid)) = quizCollection d
       \<and> lecture_findById (snd (generate_quiz e ai d sess lid)) lid =
           Some (lec\<lparr>processingStatus := Failed, quizGenerated := False,
                     quizGenerationError := Some (ascii ''Text too short for quiz generation''),
                     lastProcessed := Some (now e)\<rparr>)"
proof -
  have ts: "too_short (extractedText lec)"
    using assms(4) by (simp add: too_short_iff)
  have g: "generate_quiz e ai d sess lid =
      (Json_failure 400 (ascii ''Extracted text is too short or missing for quiz generation.''),
       lecture_findByIdAndUpdate lid (mark_failed (ascii ''Text too short for quiz generation''))
         (lecture_findByIdAndUpdate lid
            (\<lambda>l. l\<lparr>processingStatus := Processing, lastProcessed := Some (now e)\<rparr>) d))"
    using assms(1-3) ts by (simp add: generate_quiz_def may_generate_def Let_def)
  show ?thesis
    unfolding g using assms(1)
    by (simp add: lecture_findById_update mark_failed_def)
qed

theorem short_text_fails_witness:
  "fst (generate_quiz an_env (Api_text (Question_array [model_question])) installation teacher_10 2) =
     Json_failure 400 (ascii ''Extracted text is too short or missing for quiz generation.'')
   \<and> quizCollection
        (snd (generate_quiz an_env (Api_text (Question_array [model_question])) installation
                teacher_10 2)) = [stored_quiz]
   \<and> map_option processingStatus
        (lecture_findById
           (snd (generate_quiz an_env (Api_text (Question_array [model_question])) installation
                   teacher_10 2)) 2) = Some Failed
   \<and> map_option quizGenerationError
        (lecture_findById
           (snd (generate_quiz an_env (Api_text (Question_array [model_question])) installation
                   teacher_10 2)) 2) = Some (Some (ascii ''Text too short for quiz generation''))"
proof -
  let ?lec = "a_lecture 2 (Some (ascii ''too short'')) Pending False"
  have h1: "lecture_findById installation 2 = Some ?lec"
    by (simp add: find_defs run_defs)
  have h2: "may_generate teacher_10 ?lec"
    by (simp add: may_generate_def run_defs)
  have h3: "\<not> present (quiz_findOne_lectureId installation 2)"
    by (simp add: find_defs run_defs)
  have h4: "extractedText ?lec = None \<or> (\<exists>t. extractedText ?lec = Some t \<and> length t < 50)"
    by (simp add: run_defs)
  have i: "quizCollection installation = [stored_quiz]"
    by (simp add: installation_def)
  show ?thesis
    using short_text_fails [OF h1 h2 h3 h4, of an_env "Api_text (Question_array [model_question])"]
    by (simp add: i)
qed

subsection \<open>Submission\<close>

lemma submit_quiz_results:
  "snd (submit_quiz e d sess quizId A t) = d
   \<or> (\<exists>res. snd (submit_quiz e d sess quizId A t) = result_create res d
         \<and> r_quizId res = quizId \<and> r_studentId res = userId sess
         \<and> \<not> present (result_findOne d quizId (userId sess)))"
proof (cases "snd (submit_quiz e d sess quizId A t) = d")
  case False
  then obtain qz where
    "snd (submit_quiz e d sess quizId A t) =
       result_create (newQuizResult e sess quizId qz (score_quiz (questions qz) A) t) d"
    "\<not> present (result_findOne d quizId (userId sess))"
    by (auto simp: submit_quiz_def score_and_save_def Let_def split: option.splits if_splits)
  then show ?thesis
    by (intro disjI2 exI [of _ "newQuizResult e sess quizId qz (score_quiz (questions qz) A) t"])
       (simp add: newQuizResult_def)
qed simp

lemma submit_quiz_existing:
  assumes "present (result_findOne d quizId (userId sess))"
  shows "snd (submit_quiz e d sess quizId A t) = d"
  using assms by (simp add: submit_quiz_def split: option.splits)

lemma submit_quiz_conflict:
  assumes "present (result_findOne d quizId (userId sess))"
    and "userType sess = ascii ''student''"
    and "quiz_findById d quizId = Some qz" and "\<not> not_enrolled d sess qz"
  shows "fst (submit_quiz e d sess quizId A t) =
           Json_failure 400 (ascii ''You have already submitted this quiz.'')"
  using assms by (simp add: submit_quiz_def)

lemma submit_quiz_invariant:
  assumes "length (results_of d q s) \<le> 1"
  shows "length (results_of (snd (submit_quiz e d sess quizId A t)) q s) \<le> 1"
  using submit_quiz_results [of e d sess quizId A t] assms
  by (auto simp: results_of_def result_findOne_def result_create_def present_def
      find_None_filter split: option.splits)

lemma submit_quiz_submitted_state:
  assumes "is_submitted (fst (submit_quiz e d sess quizId A t))"
  shows "\<exists>qz res. userType sess = ascii ''student'' \<and> quiz_findById d quizId = Some qz
     \<and> \<not> not_enrolled d sess qz
     \<and> snd (submit_quiz e d sess quizId A t) = result_create res d
     \<and> r_quizId res = quizId \<and> r_studentId res = userId sess"
proof -
  from assms obtain qz where
    "userType sess = ascii ''student''" "quiz_findById d quizId = Some qz"
    "\<not> not_enrolled d sess qz"
    "snd (submit_quiz e d sess quizId A t) =
       result_create (newQuizResult e sess quizId qz (score_quiz (questions qz) A) t) d"
    by (auto simp: submit_quiz_def score_and_save_def Let_def is_submitted_def
        split: option.splits if_splits)
  then show ?thesis
    by (intro exI [of _ qz] exI [of _ "newQuizResult e sess quizId qz (score_quiz (questions qz) A) t"])
       (simp add: newQuizResult_def)
qed

lemma submit_twice:
  assumes "is_submitted (fst (submit_quiz e d sess quizId A t))"
  shows "submit_quiz e' (snd (submit_quiz e d sess quizId A t)) sess quizId A' t' =
     (Json_failure 400 (ascii ''You have already submitted this quiz.''),
      snd (submit_quiz e d sess quizId A t))"
proof -
  from submit_quiz_submitted_state [OF assms] obtain qz res where
    u: "userType sess = ascii ''student''" and q: "quiz_findById d quizId = Some qz"
    and n: "\<not> not_enrolled d sess qz"
    and s: "snd (submit_quiz e d sess quizId A t) = result_create res d"
    and r: "r_quizId res = quizId" "r_studentId res = userId sess"
    by blast
  have q': "quiz_findById (result_create res d) quizId = Some qz"
    using q by (simp add: quiz_findById_def result_create_def)
  have "enrollment_findOne (result_create res d) = enrollment_findOne d"
    by (simp add: enrollment_findOne_def result_create_def fun_eq_iff)
  then have n': "\<not> not_enrolled (result_create res d) sess qz"
    using n by (simp add: not_enrolled_def split: option.splits)
  have p: "present (result_findOne (result_create res d) quizId (userId sess))"
    using r by (auto simp: result_findOne_def result_create_def present_def find_None_iff
        split: option.splits)
  show ?thesis
    unfolding s using u q' n' p by (simp add: submit_quiz_def)
qed


text \<open>
  C5. When a result already exists for a quiz and a student, a submission by that student
  for that quiz changes nothing in the database (no second result), and, when the
  submission reaches the duplicate check (student session, quiz found, enrollment check
  passed), it is answered with the conflict "You have already submitted this quiz."
  (status 400). A submission that succeeds leaves such a result, so that a second
  submission of the same session for the quiz, made on the state the first one leaves,
  is answered with the conflict and changes nothing. Submissions, one after the other,
  never take the number of results of a student for a quiz above one.
\<close>

theorem duplicate_submission_rejected:
  "(present (result_findOne d quizId (userId sess)) \<longrightarrow>
      snd (submit_quiz e d sess quizId A t) = d
      \<and> (\<forall>qz. userType sess = ascii ''student'' \<and> quiz_findById d quizId = Some qz
               \<and> \<not> not_enrolled d sess qz \<longrightarrow>
            fst (submit_quiz e d sess quizId A t) =
              Json_failure 400 (ascii ''You have already submitted this quiz.'')))
   \<and> (is_submitted (fst (submit_quiz e d sess quizId A t)) \<longrightarrow>
        submit_quiz e' (snd (submit_quiz e d sess quizId A t)) sess quizId A' t' =
          (Json_failure 400 (ascii ''You have already submitted this quiz.''),
           snd (submit_quiz e d sess quizId A t)))
   \<and> (length (results_of d q s) \<le> 1 \<longrightarrow>
        length (results_of (snd (submit_quiz e d sess quizId A t)) q s) \<le> 1)"
proof (intro conjI impI allI)
  assume "present (result_findOne d quizId (userId sess))"
  then show "snd (submit_quiz e d sess quizId A t) = d"
    by (rule submit_quiz_existing)
next
  fix qz
  assume "present (result_findOne d quizId (userId sess))"
    and "userType sess = ascii ''student'' \<and> quiz_findById d quizId = Some qz
         \<and> \<not> not_enrolled d sess qz"
  then show "fst (submit_quiz e d sess quizId A t) =
      Json_failure 400 (ascii ''You have already submitted this quiz.'')"
    using submit_quiz_conflict by blast
next
  assume "is_submitted (fst (submit_quiz e d sess quizId A t))"
  then show "submit_quiz e' (snd (submit_quiz e d sess quizId A t)) sess quizId A' t' =
      (Json_failure 400 (ascii ''You have already submitted this quiz.''),
       snd (submit_quiz e d sess quizId A t))"
    by (rule submit_twice)
next
  assume "length (results_of d q s) \<le> 1"
  then show "length (results_of (snd (submit_quiz e d sess quizId A t)) q s) \<le> 1"
    by (rule submit_quiz_invariant)
qed

theorem duplicate_submission_rejected_witness:
  "submit_quiz an_env installation (student 21) 5 [answer 0 ''B'', answer 1 ''C''] 30 =
     (Json_failure 400 (ascii ''You have already submitted this quiz.''), installation)
   \<and> is_submitted
        (fst (submit_quiz an_env installation (student 20) 5 [answer 0 ''B'', answer 1 ''C''] 30))
   \<and> submit_quiz an_env
        (snd (submit_quiz an_env installation (student 20) 5 [answer 0 ''B'', answer 1 ''C''] 30))
        (student 20) 5 [answer 0 ''B'', answer 1 ''C''] 30 =
       (Json_failure 400 (ascii ''You have already submitted this quiz.''),
        snd (submit_quiz an_env installation (student 20) 5 [answer 0 ''B'', answer 1 ''C''] 30))
   \<and> length (results_of installation 5 21) = 1
   \<and> length (results_of
        (snd (submit_quiz an_env installation (student 21) 5 [answer 0 ''B'', answer 1 ''C''] 30))
        5 21) \<le> 1"
proof -
  let ?A = "[answer 0 ''B'', answer 1 ''C'']"
  have h1: "present (result_findOne installation 5 (userId (student 21)))"
    by (simp add: find_defs run_defs)
  have h2: "userType (student 21) = ascii ''student'' \<and> quiz_findById installation 5 = Some stored_quiz
      \<and> \<not> not_enrolled installation (student 21) stored_quiz"
    by (simp add: find_defs run_defs)
  have h3: "length (results_of installation 5 21) = 1"
    by (simp add: results_of_def run_defs)
  have h4: "is_submitted (fst (submit_quiz an_env installation (student 20) 5 ?A 30))"
    by (simp add: submit_quiz_def score_and_save_def Let_def is_submitted_def find_defs run_defs)
  note dup = duplicate_submission_rejected
    [of installation 5 "student 21" an_env ?A 30 an_env ?A 30 5 21]
  note twice = duplicate_submission_rejected
    [of installation 5 "student 20" an_env ?A 30 an_env ?A 30 5 21]
  have c1: "submit_quiz an_env installation (student 21) 5 ?A 30 =
     (Json_failure 400 (ascii ''You have already submitted this quiz.''), installation)"
    using dup h1 h2 by (simp add: prod_eq_iff)
  have c2: "length (results_of (snd (submit_quiz an_env installation (student 21) 5 ?A 30)) 5 21) \<le> 1"
    using dup h3 by simp
  have c3: "submit_quiz an_env (snd (submit_quiz an_env installation (student 20) 5 ?A 30))
        (student 20) 5 ?A 30 =
       (Json_failure 400 (ascii ''You have already submitted this quiz.''),
        snd (submit_quiz an_env installation (student 20) 5 ?A 30))"
    using twice h4 by blast
  show ?thesis
    using c1 h4 c3 h3 c2 by blast
qed

subsection \<open>Delivery\<close>

lemma questionsForClient_keys:
  "cq \<in> set (questionsForClient qs) \<Longrightarrow> map fst cq = [''question'', ''options'']"
  by (auto simp: questionsForClient_def)

text \<open>
  C2. For a student session and an existing quiz, \<^verbatim>\<open>GET /api/quiz/:quizId\<close> answers with
  the quiz; and whenever it answers with a quiz, the questions it sends are those of the
  stored quiz, each reduced to two properties: the question text and the options object.
  No question it sends has a property \<^verbatim>\<open>correct_answer\<close>, \<^verbatim>\<open>explanations\<close> or
  \<^verbatim>\<open>correctAnswerExplanation\<close>.
\<close>

theorem sanitized_delivery:
  "(\<forall>r. api_quiz d sess quizId = Json_quiz r \<longrightarrow>
      (\<exists>qz. quiz_findById d quizId = Some qz
            \<and> c_questions r =
                map (\<lambda>q. [(''question'', Text (question q)), (''options'', Object (options q))])
                  (questions qz))
      \<and> (\<forall>cq \<in> set (c_questions r).
             map fst cq = [''question'', ''options'']
             \<and> ''correct_answer'' \<notin> set (map fst cq)
             \<and> ''explanations'' \<notin> set (map fst cq)
             \<and> ''correctAnswerExplanation'' \<notin> set (map fst cq)))
   \<and> (\<forall>qz. userType sess = ascii ''student'' \<and> quiz_findById d quizId = Some qz \<longrightarrow>
          (\<exists>r. api_quiz d sess quizId = Json_quiz r))"
proof (intro conjI allI impI)
  fix r
  assume "api_quiz d sess quizId = Json_quiz r"
  then obtain qz where qz: "quiz_findById d quizId = Some qz"
    and r: "c_questions r = questionsForClient (questions qz)"
    by (auto simp: api_quiz_def split: if_splits option.splits)
  show "\<exists>qz. quiz_findById d quizId = Some qz
            \<and> c_questions r =
                map (\<lambda>q. [(''question'', Text (question q)), (''options'', Object (options q))])
                  (questions qz)"
    using qz r by (simp add: questionsForClient_def)
  show "\<forall>cq \<in> set (c_questions r).
             map fst cq = [''question'', ''options'']
             \<and> ''correct_answer'' \<notin> set (map fst cq)
             \<and> ''explanations'' \<notin> set (map fst cq)
             \<and> ''correctAnswerExplanation'' \<notin> set (map fst cq)"
    using r questionsForClient_keys by simp
next
  fix qz
  assume "userType sess = ascii ''student'' \<and> quiz_findById d quizId = Some qz"
  then show "\<exists>r. api_quiz d sess quizId = Json_quiz r"
    by (simp add: api_quiz_def)
qed

theorem sanitized_delivery_witness:
  "\<exists>r. api_quiz installation (student 20) 5 = Json_quiz r
     \<and> map (map fst) (c_questions r) = [[''question'', ''options''], [''question'', ''options'']]
     \<and> list_all (\<lambda>cq. ''correct_answer'' \<notin> set (map fst cq)) (c_questions r)"
proof -
  have h: "userType (student 20) = ascii ''student'' \<and> quiz_findById installation 5 = Some stored_quiz"
    by (simp add: find_defs run_defs)
  note sd = sanitized_delivery [of installation "student 20" 5]
  from sd [THEN conjunct2, rule_format, OF h] obtain r where
    r: "api_quiz installation (student 20) 5 = Json_quiz r"
    by blast
  from sd [THEN conjunct1, rule_format, OF r] obtain qz where
    q: "quiz_findById installation 5 = Some qz"
    and c: "c_questions r =
              map (\<lambda>q. [(''question'', Text (question q)), (''options'', Object (options q))])
                (questions qz)"
    and k: "\<forall>cq \<in> set (c_questions r). map fst cq = [''question'', ''options'']
              \<and> ''correct_answer'' \<notin> set (map fst cq)"
    by blast
  have "qz = stored_quiz"
    using q h by simp
  then have l: "length (c_questions r) = 2"
    using c by (simp add: stored_quiz_def)
  have "map (map fst) (c_questions r) = replicate (length (c_questions r)) [''question'', ''options'']"
    using k by (intro replicate_eqI) auto
  then have "map (map fst) (c_questions r) = [[''question'', ''options''], [''question'', ''options'']]"
    unfolding l by (simp add: numeral_2_eq_2)
  moreover have "list_all (\<lambda>cq. ''correct_answer'' \<notin> set (map fst cq)) (c_questions r)"
    using k unfolding list_all_iff by blast
  ultimately show ?thesis
    using r by (intro exI [of _ r] conjI)
qed




lemma submit_quiz_requires_enrollment:
  assumes "userType sess = ascii ''student''" and "quiz_findById d quizId = Some qz"
    and "not_enrolled d sess qz"
  shows "submit_quiz e d sess quizId A t =
           (Json_failure 403 (ascii ''You are not enrolled in the class for this quiz.''), d)"
  using assms by (simp add: submit_quiz_def)

lemma take_quiz_requires_enrollment:
  assumes "userType sess = ascii ''student''" and "quiz_findById d quizId = Some qz"
    and "(case classId of Some c \<Rightarrow> Some c | None \<Rightarrow> quiz_classId qz) = Some targetClassId"
    and "\<not> present (enrollment_findOne d (userId sess) targetClassId)"
  shows "take_quiz d sess quizId classId = Send 403 (ascii ''You are not enrolled in this class.'')"
  using assms by (simp add: take_quiz_def)

text \<open>
  C6. The page route checks the enrollment in the class named in the query when there is
  one, not in the quiz's class. Student 22 has no active enrollment in class 100, the class
  of quiz 5, and is enrolled in class 200: with class 200 in the query, the page route
  renders the quiz page instead of answering 403. (Without a class in the query it answers
  403, and so does the submit route: see C10.)
\<close>

theorem take_quiz_other_class:
  "quiz_findById installation 5 = Some stored_quiz
   \<and> quiz_classId stored_quiz = Some 100
   \<and> enrollment_findOne installation (userId (student 22)) 100 = None
   \<and> take_quiz installation (student 22) 5 (Some 200) =
       Render_takeQuiz
         \<lparr>v_lectureTitle = ascii ''L3'', v_totalQuestions = 2, v_classId = Some 100,
          v_className = Some (ascii ''Algebra''), v_classSubject = Some (ascii ''Math''),
          v_userName = ascii ''S22'', v_classContext = True\<rparr>"
  by (simp add: take_quiz_def take_quiz_page_def find_defs run_defs)


subsection \<open>Explanation lookup\<close>

lemma why_correct_visible: "\<not> list_all is_whitespace (why_correct ca)"
  by (simp add: why_correct_def is_whitespace_def)

lemma non_blank_iff: "non_blank v = (\<not> blank v)"
  by (simp add: non_blank_def blank_def split: option.splits)

lemma blank_Some: "blank (Some s) = (trim s = [])"
  by (auto simp: blank_def trim_def)

lemma trim_Nil [simp]: "trim [] = []"
  by (simp add: trim_def)

lemma has_detailed_own:
  assumes "explanations q = Some ex" and "map_of ex w = Some s"
  shows "has_detailed q w = Inr (trim s \<noteq> [])"
  using assms by (auto simp: has_detailed_def stored_explanation_def read_prop_def)

lemma stored_explanation_own:
  assumes "explanations q = Some ex" and "map_of ex w = Some s"
  shows "stored_explanation q w = Str s"
  using assms by (simp add: stored_explanation_def read_prop_def)

lemma has_detailed_blank:
  assumes "stored_blank q w" and "\<not> inherited_name w"
  shows "has_detailed q w = Inr False"
  using assms
  by (auto simp: has_detailed_def stored_explanation_def read_prop_def stored_blank_def
      inherited_name_def blank_Some blank_def split: option.splits)

lemma has_detailed_inherited:
  assumes "explanations q = Some ex" and "map_of ex w = None" and "inherited_name w"
  shows "has_detailed q w = Inl trim_error_message"
  using assms
  by (auto simp: has_detailed_def stored_explanation_def read_prop_def inherited_name_def
      split: option.splits)

lemma get_explanation_found:
  assumes "userType sess = ascii ''student''" and "quiz_findById d quizId = Some qz"
    and "at_index (questions qz) i = Some q" and "options q = Some opts"
    and "has_detailed q w = Inr b"
  shows "explanation_of (get_explanation d sess quizId i w) = Some (fst (explanation_text q opts w b))"
  using assms by (simp add: get_explanation_def explanation_of_def)

lemma explanation_text_detailed:
  assumes "explanations q = Some ex" "map_of ex w = Some s"
  shows "fst (explanation_text q opts w True) =
     (if blank (correctAnswerExplanation q) then s
      else s @ why_correct (correct_answer q) @ to_str (correctAnswerExplanation q))"
  using stored_explanation_own [OF assms]
  by (simp add: explanation_text_def non_blank_iff show_prop_def)

lemma explanation_text_basic:
  "fst (explanation_text q opts w False) =
     ascii ''The correct answer is '' @ to_str (correct_answer q) @ ascii '') ''
     @ show_prop (read_prop opts (to_str (correct_answer q)))
     @ (if blank (correctAnswerExplanation q)
        then ascii ''. Please review the lecture material for detailed understanding.''
        else ascii ''.'' @ [0x0A, 0x0A] @ to_str (correctAnswerExplanation q))"
  by (simp add: explanation_text_def non_blank_iff)

text \<open>
  The handler takes the database and the request and nothing else: it has no access to the
  generative model. For a student session, an existing quiz, a valid question index and a
  question with an options object, and for a chosen label that is not the name of a member
  every object inherits (so for each of the labels A to D), the lookup answers with an
  explanation:
  \<^item> when the stored explanation for the chosen label is present and not blank, it is that
    text, followed, when the correct-answer explanation is not blank, by the delimiter
    (two line feeds, a light-bulb sign and "**Why X is correct:**") and the correct-answer
    explanation;
  \<^item> when the stored explanation is absent or blank, it is the message "The correct answer
    is X) option." followed by the correct-answer explanation when that is not blank, and
    by a request to review the lecture material otherwise;
  \<^item> for the correct label of an explanation-complete question the stored explanation is
    blank, so the lookup takes the second case;
  \<^item> the delimiter is not white space.
\<close>

lemma explanation_lookup_stored:
  assumes "userType sess = ascii ''student''" and "quiz_findById d quizId = Some qz"
    and "at_index (questions qz) i = Some q" and "options q = Some opts"
  shows "(\<forall>ex s c. explanations q = Some ex \<and> map_of ex w = Some s \<and> trim s \<noteq> []
            \<and> correctAnswerExplanation q = Some c \<and> trim c \<noteq> [] \<longrightarrow>
          explanation_of (get_explanation d sess quizId i w) =
            Some (s @ why_correct (correct_answer q) @ c))
     \<and> (\<forall>ex s. explanations q = Some ex \<and> map_of ex w = Some s \<and> trim s \<noteq> []
            \<and> blank (correctAnswerExplanation q) \<longrightarrow>
          explanation_of (get_explanation d sess quizId i w) = Some s)
     \<and> (\<forall>c. stored_blank q w \<and> \<not> inherited_name w
            \<and> correctAnswerExplanation q = Some c \<and> trim c \<noteq> [] \<longrightarrow>
          explanation_of (get_explanation d sess quizId i w) =
            Some (ascii ''The correct answer is '' @ to_str (correct_answer q) @ ascii '') ''
                  @ show_prop (read_prop opts (to_str (correct_answer q)))
                  @ ascii ''.'' @ [0x0A, 0x0A] @ c))
     \<and> (stored_blank q w \<and> \<not> inherited_name w \<and> blank (correctAnswerExplanation q) \<longrightarrow>
          explanation_of (get_explanation d sess quizId i w) =
            Some (ascii ''The correct answer is '' @ to_str (correct_answer q) @ ascii '') ''
                  @ show_prop (read_prop opts (to_str (correct_answer q)))
                  @ ascii ''. Please review the lecture material for detailed understanding.''))
     \<and> (explanations_complete q \<and> correct_answer q = Some w \<longrightarrow>
          stored_blank q w \<and> \<not> inherited_name w)
     \<and> \<not> list_all is_whitespace (why_correct (correct_answer q))"
proof (intro conjI allI impI)
  fix ex s c
  assume a: "explanations q = Some ex \<and> map_of ex w = Some s \<and> trim s \<noteq> []
            \<and> correctAnswerExplanation q = Some c \<and> trim c \<noteq> []"
  then have "has_detailed q w = Inr True"
    using has_detailed_own [of q ex w s] by simp
  from get_explanation_found [OF assms this] a
  show "explanation_of (get_explanation d sess quizId i w) =
            Some (s @ why_correct (correct_answer q) @ c)"
    using explanation_text_detailed [of q ex w s opts]
    by (simp add: blank_Some to_str_def)
next
  fix ex s
  assume a: "explanations q = Some ex \<and> map_of ex w = Some s \<and> trim s \<noteq> []
            \<and> blank (correctAnswerExplanation q)"
  then have "has_detailed q w = Inr True"
    using has_detailed_own [of q ex w s] by simp
  from get_explanation_found [OF assms this] a
  show "explanation_of (get_explanation d sess quizId i w) = Some s"
    using explanation_text_detailed [of q ex w s opts]
    by simp
next
  fix c
  assume a: "stored_blank q w \<and> \<not> inherited_name w
            \<and> correctAnswerExplanation q = Some c \<and> trim c \<noteq> []"
  then have "has_detailed q w = Inr False"
    using has_detailed_blank [of q w] by simp
  from get_explanation_found [OF assms this] a
  show "explanation_of (get_explanation d sess quizId i w) =
            Some (ascii ''The correct answer is '' @ to_str (correct_answer q) @ ascii '') ''
                  @ show_prop (read_prop opts (to_str (correct_answer q)))
                  @ ascii ''.'' @ [0x0A, 0x0A] @ c)"
    using explanation_text_basic [of q opts w]
    by (simp add: blank_Some to_str_def)
next
  assume a: "stored_blank q w \<and> \<not> inherited_name w \<and> blank (correctAnswerExplanation q)"
  then have "has_detailed q w = Inr False"
    using has_detailed_blank [of q w] by simp
  from get_explanation_found [OF assms this] a
  show "explanation_of (get_explanation d sess quizId i w) =
            Some (ascii ''The correct answer is '' @ to_str (correct_answer q) @ ascii '') ''
                  @ show_prop (read_prop opts (to_str (correct_answer q)))
                  @ ascii ''. Please review the lecture material for detailed understanding.'')"
    using explanation_text_basic [of q opts w]
    by simp
next
  assume "explanations_complete q \<and> correct_answer q = Some w"
  then show "stored_blank q w"
    by (auto simp: explanations_complete_def stored_blank_def list_all_iff blank_def
        split: option.splits)
next
  assume "explanations_complete q \<and> correct_answer q = Some w"
  then have "w \<in> set labels"
    by (auto simp: explanations_complete_def split: option.splits)
  then show "\<not> inherited_name w"
    by (auto simp: labels_def inherited_name_def object_prototype_def ascii_def)
next
  show "\<not> list_all is_whitespace (why_correct (correct_answer q))"
    by (rule why_correct_visible)
qed

lemma explanation_lookup_examples:
  "explanation_of (get_explanation installation (student 20) 5 0 (ascii ''A'')) =
     Some (ascii ''low'' @ [0x0A, 0x0A, 0xD83D, 0xDCA1] @ ascii '' **Why B is correct:** sum'')
   \<and> explanation_of (get_explanation installation (student 20) 5 1 (ascii ''A'')) =
       Some (ascii ''sum'')
   \<and> explanation_of (get_explanation installation (student 20) 5 0 (ascii ''B'')) =
       Some (ascii ''The correct answer is B) 4.'' @ [0x0A, 0x0A] @ ascii ''sum'')
   \<and> explanation_of (get_explanation installation (student 20) 5 1 (ascii ''C'')) =
       Some (ascii ''The correct answer is C) 9. Please review the lecture material for detailed understanding.'')
   \<and> explanation_of (get_explanation installation (student 20) 5 0 (ascii ''E'')) =
       Some (ascii ''The correct answer is B) 4.'' @ [0x0A, 0x0A] @ ascii ''sum'')"
  by (simp add: get_explanation_def explanation_of_def explanation_text_def has_detailed_def
      stored_explanation_def read_prop_def show_prop_def object_prototype_def why_correct_def
      to_str_def non_blank_def at_index_def find_defs run_defs look_defs)

text \<open>
  The lookup reads \<^verbatim>\<open>question.explanations[wrongAnswer]\<close> through the prototype chain, and
  the request chooses \<^verbatim>\<open>wrongAnswer\<close>. For the name of an inherited member with no stored
  entry the value read is a function or an object: it is truthy and has no \<^verbatim>\<open>trim\<close>
  method, the call throws, and the handler answers 500.
\<close>

lemma get_explanation_inherited:
  assumes "userType sess = ascii ''student''" and "quiz_findById d quizId = Some qz"
    and "at_index (questions qz) i = Some q"
    and "explanations q = Some ex" and "map_of ex w = None" and "inherited_name w"
  shows "get_explanation d sess quizId i w =
     Json_failure 500
       (ascii ''Failed to retrieve explanation: question.explanations[wrongAnswer].trim is not a function'')"
  using assms(1-3) has_detailed_inherited [OF assms(4-6)]
  by (simp add: get_explanation_def trim_error_message_def ascii_def)


end
